theory Spec2Isabelle
  imports Main "HOL-Library.Char_ord" "HOL-Library.List_Lexorder" "HOL-Library.Multiset"
begin

section \<open>Data model of the dashboard (src/app/dashboard/page.tsx)\<close>

text \<open>
  Row identifiers are UUID strings generated by the database. They are only ever compared
  for equality, so they are modelled as natural numbers; a fresh identifier is drawn from a
  counter kept with the table.
\<close>

type_synonym uuid = nat

text \<open>\<^verbatim>\<open>interface Profile\<close> (the photo URL plays no role in any handler).\<close>

record Profile =
  id_profile :: uuid
  first_name :: string
  username :: string

text \<open>\<^verbatim>\<open>interface Availability { id; day_of_week; start_time; end_time }\<close>.
  Times are the strings the database returns (\<^verbatim>\<open>HH:MM:SS\<close>); the code compares them as
  strings, which is the lexicographic order on character lists.\<close>

record Availability =
  id_avail :: uuid
  day_of_week :: nat
  start_time :: string
  end_time :: string

text \<open>A calendar cell: \<^verbatim>\<open>{ dow: number; hour: number; colIdx: number }\<close>. The grid renders
  cells for whole hours of the day only, so the three numbers are naturals.\<close>

record Cell =
  dow :: nat
  hour :: nat
  colIdx :: nat

subsection \<open>String helpers of the JavaScript runtime\<close>

definition digit :: "nat \<Rightarrow> char" where
  "digit d = ''0123456789'' ! (d mod 10)"

text \<open>\<^verbatim>\<open>Number.prototype.toString()\<close> on a non-negative integer: its decimal digits.\<close>

function toString :: "nat \<Rightarrow> string" where
  "toString n = (if n < 10 then [digit n] else toString (n div 10) @ [digit n])"
  by pat_completeness auto
termination
  by (relation "measure (\<lambda>n. n)") auto

declare toString.simps [simp del]

text \<open>\<^verbatim>\<open>String.prototype.padStart(targetLength, padChar)\<close> with a one-character pad.\<close>

definition padStart :: "nat \<Rightarrow> char \<Rightarrow> string \<Rightarrow> string" where
  "padStart n c s = replicate (n - length s) c @ s"

text \<open>\<^verbatim>\<open>`${hour.toString().padStart(2, "0")}:00:00`\<close> and the same for \<^verbatim>\<open>hour + 1\<close>.\<close>

definition hourStr :: "nat \<Rightarrow> string" where
  "hourStr h = padStart 2 (CHR ''0'') (toString h) @ '':00:00''"

definition nextHourStr :: "nat \<Rightarrow> string" where
  "nextHourStr h = padStart 2 (CHR ''0'') (toString (h + 1)) @ '':00:00''"

subsection \<open>isCellAvailable and buildRange\<close>

text \<open>\<^verbatim>\<open>availability.find(a => a.day_of_week === day && a.start_time <= hourStr &&
  a.end_time >= nextHourStr) || null\<close>: the first covering row of the React state.\<close>

definition isCellAvailable :: "Availability list \<Rightarrow> nat \<Rightarrow> nat \<Rightarrow> Availability option" where
  "isCellAvailable availability day h =
     find (\<lambda>a. day_of_week a = day \<and> start_time a \<le> hourStr h \<and> end_time a \<ge> nextHourStr h)
       availability"

text \<open>The loop \<^verbatim>\<open>for (let h = minH; h <= maxH; h++) cells.push({...})\<close> of buildRange.\<close>

function buildRange_loop :: "Cell \<Rightarrow> nat \<Rightarrow> nat \<Rightarrow> Cell list \<Rightarrow> Cell list" where
  "buildRange_loop start h maxH cells =
     (if h \<le> maxH
      then buildRange_loop start (h + 1) maxH
             (cells @ [\<lparr>dow = dow start, hour = h, colIdx = colIdx start\<rparr>])
      else cells)"
  by pat_completeness auto
termination
  by (relation "measure (\<lambda>(start, h, maxH, cells). Suc maxH - h)") auto

declare buildRange_loop.simps [simp del]

definition buildRange :: "Cell \<Rightarrow> Cell \<Rightarrow> Cell list" where
  "buildRange start end_c =
     (if colIdx start \<noteq> colIdx end_c then [start]
      else let minH = min (hour start) (hour end_c);
               maxH = max (hour start) (hour end_c)
           in buildRange_loop start minH maxH [])"

section \<open>The availability table behind the Supabase client\<close>

text \<open>
  Modelled from the spec: the declaration of the \<^verbatim>\<open>availability\<close> table is not in
  \<^verbatim>\<open>supabase-schema.sql\<close>. Following the store contract of the specification, an insert
  performs no overlap validation and returns the new row with a fresh identifier, and a
  delete by identifier is idempotent: deleting an identifier that is not stored is a
  successful no-op.

  A row of the table is the owner (\<^verbatim>\<open>user_id\<close>) with the columns the dashboard selects.
  Every request may fail (network, policy); \<open>faults\<close> lists, request after request, whether
  the next request fails. A failed request leaves the table as it was. Once the list is
  exhausted every request succeeds.
\<close>

record Supabase =
  availability_tbl :: "(uuid \<times> Availability) list"
  next_uuid :: uuid
  faults :: "bool list"

definition next_fails :: "Supabase \<Rightarrow> bool" where
  "next_fails db = (case faults db of [] \<Rightarrow> False | f # fs \<Rightarrow> f)"

text \<open>\<^verbatim>\<open>supabase.from("availability").delete().eq("id", i)\<close>; the result is
  \<open>(error \<noteq> null, database afterwards)\<close>.\<close>

definition db_delete :: "uuid \<Rightarrow> Supabase \<Rightarrow> bool \<times> Supabase" where
  "db_delete i db =
     (if next_fails db then (True, db\<lparr>faults := tl (faults db)\<rparr>)
      else (False, db\<lparr>availability_tbl := filter (\<lambda>r. id_avail (snd r) \<noteq> i) (availability_tbl db),
                      faults := tl (faults db)\<rparr>))"

text \<open>\<^verbatim>\<open>supabase.from("availability").insert({user_id, day_of_week, start_time, end_time})
  .select("id, day_of_week, start_time, end_time").single()\<close>; the result is
  \<open>(data, database afterwards)\<close>, with \<open>data = None\<close> exactly when the request failed.\<close>

definition db_insert :: "uuid \<Rightarrow> nat \<Rightarrow> string \<Rightarrow> string \<Rightarrow> Supabase \<Rightarrow> Availability option \<times> Supabase" where
  "db_insert u d s e db =
     (if next_fails db then (None, db\<lparr>faults := tl (faults db)\<rparr>)
      else let row = \<lparr>id_avail = next_uuid db, day_of_week = d, start_time = s, end_time = e\<rparr>
           in (Some row, db\<lparr>availability_tbl := availability_tbl db @ [(u, row)],
                             next_uuid := Suc (next_uuid db),
                             faults := tl (faults db)\<rparr>))"

section \<open>handleToggleAvailability\<close>

text \<open>The part of the component state the handler reads and writes.\<close>

record Dashboard =
  profile :: "Profile option"
  availability :: "Availability list"
  selectedCells :: "Cell list"

text \<open>\<^verbatim>\<open>selectedCells.every((c) => isCellAvailable(c.dow, c.hour))\<close>.\<close>

definition allAvailable :: "Availability list \<Rightarrow> Cell list \<Rightarrow> bool" where
  "allAvailable snap cells = list_all (\<lambda>c. isCellAvailable snap (dow c) (hour c) \<noteq> None) cells"

text \<open>
  The remove branch of the loop body, for a cell whose covering row in the snapshot is
  \<open>m\<close>: delete \<open>m\<close>; \<^verbatim>\<open>if (error) continue\<close>; insert the remainder before the hour and the
  remainder after it; then \<^verbatim>\<open>setAvailability(prev => [...prev.filter(a => a.id !==
  matchingAvail.id), ...newRows])\<close>. \<open>st\<close> is the pending React state.
\<close>

definition removeHour :: "uuid \<Rightarrow> Availability \<Rightarrow> Cell \<Rightarrow> Availability list \<times> Supabase \<Rightarrow> Availability list \<times> Supabase" where
  "removeHour pid m cell acc =
     (case acc of (st, db) \<Rightarrow>
        (case db_delete (id_avail m) db of (err, db1) \<Rightarrow>
           if err then (st, db1)
           else
             (case (if start_time m < hourStr (hour cell)
                    then db_insert pid (dow cell) (start_time m) (hourStr (hour cell)) db1
                    else (None, db1)) of (l, db2) \<Rightarrow>
                (case (if end_time m > nextHourStr (hour cell)
                       then db_insert pid (dow cell) (nextHourStr (hour cell)) (end_time m) db2
                       else (None, db2)) of (r, db3) \<Rightarrow>
                   (filter (\<lambda>a. id_avail a \<noteq> id_avail m) st @ (case l of None \<Rightarrow> [] | Some x \<Rightarrow> [x])
                      @ (case r of None \<Rightarrow> [] | Some y \<Rightarrow> [y]),
                    db3)))))"

text \<open>The add branch: insert the one-hour row; \<^verbatim>\<open>if (!error && data)
  setAvailability(prev => [...prev, data])\<close>.\<close>

definition addHour :: "uuid \<Rightarrow> Cell \<Rightarrow> Availability list \<times> Supabase \<Rightarrow> Availability list \<times> Supabase" where
  "addHour pid cell acc =
     (case acc of (st, db) \<Rightarrow>
        (case db_insert pid (dow cell) (hourStr (hour cell)) (nextHourStr (hour cell)) db of
           (None, db1) \<Rightarrow> (st, db1)
         | (Some row, db1) \<Rightarrow> (st @ [row], db1)))"

text \<open>
  One iteration of \<^verbatim>\<open>for (const cell of selectedCells)\<close>. \<open>snap\<close> is the \<^verbatim>\<open>availability\<close> the
  handler closed over: \<^verbatim>\<open>isCellAvailable\<close> reads it during the whole run, whatever the
  iterations before have written.
\<close>

definition toggleCell :: "uuid \<Rightarrow> Availability list \<Rightarrow> bool \<Rightarrow> Cell \<Rightarrow> Availability list \<times> Supabase \<Rightarrow> Availability list \<times> Supabase" where
  "toggleCell pid snap allAv cell acc =
     (case isCellAvailable snap (dow cell) (hour cell) of
        Some m \<Rightarrow> if allAv then removeHour pid m cell acc else acc
      | None \<Rightarrow> if \<not> allAv then addHour pid cell acc else acc)"

definition handleToggleAvailability :: "Dashboard \<Rightarrow> Supabase \<Rightarrow> Dashboard \<times> Supabase" where
  "handleToggleAvailability d db =
     (case profile d of
        None \<Rightarrow> (d, db)
      | Some p \<Rightarrow>
          if selectedCells d = [] then (d, db)
          else
            (case fold (toggleCell (id_profile p) (availability d)
                          (allAvailable (availability d) (selectedCells d)))
                    (selectedCells d) (availability d, db) of
               (st, db') \<Rightarrow> (d\<lparr>availability := st, selectedCells := []\<rparr>, db')))"

section \<open>Friend links and hangout suggestions\<close>

subsection \<open>Tables of supabase-schema.sql\<close>

text \<open>The \<^verbatim>\<open>status\<close> columns are text restricted by a check constraint; the handlers only
  ever write the three literals below.\<close>

datatype status = pending | accepted | declined

datatype pg_error =
  RlsViolation | CheckViolation | NotNullViolation | ForeignKeyViolation | UniqueViolation

text \<open>\<^verbatim>\<open>public.friends\<close>: \<^verbatim>\<open>check (status in ('pending', 'accepted'))\<close>,
  \<^verbatim>\<open>unique(user_id, friend_user_id)\<close>.\<close>

record friends_row =
  id_friend :: uuid
  user_id :: uuid
  friend_user_id :: uuid
  status_friend :: status

text \<open>\<^verbatim>\<open>public.interests\<close>.\<close>

record interests_row =
  id_interest :: uuid
  user_id_interest :: uuid
  title :: string

text \<open>\<^verbatim>\<open>public.hangout_suggestions\<close>; \<^verbatim>\<open>interest_id\<close> is declared \<^verbatim>\<open>not null\<close>. Timestamps
  are milliseconds since the epoch, the resolution of the JavaScript \<^verbatim>\<open>Date\<close> that writes
  and compares them.\<close>

record hangout_suggestion =
  id_hs :: uuid
  sender_user_id :: uuid
  recipient_user_id :: uuid
  interest_id :: uuid
  proposed_datetime :: int
  message :: "string option"
  location :: "string option"
  description :: "string option"
  status :: status

text \<open>The rows of \<^verbatim>\<open>public.users\<close> are the profiles. \<open>next_row_id\<close> stands for
  \<^verbatim>\<open>gen_random_uuid()\<close>.\<close>

record Database =
  users :: "Profile list"
  friends :: "friends_row list"
  interests :: "interests_row list"
  hangout_suggestions :: "hangout_suggestion list"
  next_row_id :: uuid

definition user_exists :: "Database \<Rightarrow> uuid \<Rightarrow> bool" where
  "user_exists db u = list_ex (\<lambda>p. id_profile p = u) (users db)"

text \<open>
  \<^verbatim>\<open>insert into friends\<close> as the session user \<open>auth\<close>: the insert policy
  \<^verbatim>\<open>with check (user_id = auth.uid())\<close>, the check constraint on the status, the two foreign
  keys into \<^verbatim>\<open>users\<close>, and uniqueness of the ordered pair \<^verbatim>\<open>(user_id, friend_user_id)\<close>.
\<close>

definition friends_insert :: "uuid \<Rightarrow> uuid \<Rightarrow> uuid \<Rightarrow> status \<Rightarrow> Database \<Rightarrow> pg_error + Database" where
  "friends_insert auth u f st db =
     (if u \<noteq> auth then Inl RlsViolation
      else if st = declined then Inl CheckViolation
      else if \<not> user_exists db u \<or> \<not> user_exists db f then Inl ForeignKeyViolation
      else if list_ex (\<lambda>r. user_id r = u \<and> friend_user_id r = f) (friends db) then Inl UniqueViolation
      else Inr (db\<lparr>friends := friends db
                        @ [\<lparr>id_friend = next_row_id db, user_id = u, friend_user_id = f, status_friend = st\<rparr>],
                    next_row_id := Suc (next_row_id db)\<rparr>))"

text \<open>
  \<^verbatim>\<open>update hangout_suggestions set status = s where id = i\<close> as the session user \<open>auth\<close>:
  the update policy \<^verbatim>\<open>using (recipient_user_id = auth.uid())\<close> hides every other row from the
  statement, which then updates no row and reports no error.
\<close>

definition hs_update_status :: "uuid \<Rightarrow> uuid \<Rightarrow> status \<Rightarrow> Database \<Rightarrow> Database" where
  "hs_update_status auth i s db =
     db\<lparr>hangout_suggestions :=
          map (\<lambda>r. if id_hs r = i \<and> recipient_user_id r = auth then r\<lparr>status := s\<rparr> else r)
            (hangout_suggestions db)\<rparr>"


subsection \<open>handleAddFriend\<close>

text \<open>\<^verbatim>\<open>friendErrors: Record<string, string>\<close> keeps the error of the last attempt per
  user; \<^verbatim>\<open>addedFriends: Set<string>\<close>.\<close>

record FriendUi =
  friendErrors :: "uuid \<rightharpoonup> pg_error"
  addedFriends :: "uuid set"

definition handleAddFriend :: "Profile option \<Rightarrow> uuid \<Rightarrow> FriendUi \<Rightarrow> Database \<Rightarrow> FriendUi \<times> Database" where
  "handleAddFriend prof friendId ui db =
     (case prof of
        None \<Rightarrow> (ui, db)
      | Some p \<Rightarrow>
          (case friends_insert (id_profile p) (id_profile p) friendId pending db of
             Inl err \<Rightarrow> (ui\<lparr>friendErrors := (friendErrors ui)(friendId \<mapsto> err)\<rparr>, db)
           | Inr db' \<Rightarrow>
               (ui\<lparr>friendErrors := (friendErrors ui)(friendId := None),
                   addedFriends := insert friendId (addedFriends ui)\<rparr>, db')))"


subsection \<open>handleAcceptHangout, handleDeclineHangout\<close>

text \<open>\<^verbatim>\<open>interface HangoutRequest\<close>, the incoming pending requests shown in the
  notifications panel.\<close>

record HangoutRequest =
  id_request :: uuid
  sender_request :: uuid
  proposed_datetime_request :: int
  interest_title :: "string option"

text \<open>Both handlers issue the update and drop the request from the panel; neither reads
  the result of the update. \<open>auth\<close> is the user of the session.\<close>

definition handleAcceptHangout :: "uuid \<Rightarrow> uuid \<Rightarrow> HangoutRequest list \<Rightarrow> Database \<Rightarrow> HangoutRequest list \<times> Database" where
  "handleAcceptHangout auth requestId reqs db =
     (filter (\<lambda>r. id_request r \<noteq> requestId) reqs, hs_update_status auth requestId accepted db)"

definition handleDeclineHangout :: "uuid \<Rightarrow> uuid \<Rightarrow> HangoutRequest list \<Rightarrow> Database \<Rightarrow> HangoutRequest list \<times> Database" where
  "handleDeclineHangout auth requestId reqs db =
     (filter (\<lambda>r. id_request r \<noteq> requestId) reqs, hs_update_status auth requestId declined db)"

subsection \<open>handleScheduleHangout\<close>






subsection \<open>The upcoming accepted hangs of fetchData\<close>

text \<open>\<^verbatim>\<open>interface Hang\<close>: \<^verbatim>\<open>interest\<close> is the title, \<^verbatim>\<open>friend\<close> the first name and
  username of the other party.\<close>

record Hang =
  id_hang :: uuid
  proposed_datetime_hang :: int
  message_hang :: "string option"
  location_hang :: "string option"
  description_hang :: "string option"
  interest :: "string option"
  friend :: "(string \<times> string) option"

text \<open>\<^verbatim>\<open>.single()\<close>: the row when the query finds exactly one, else \<^verbatim>\<open>null\<close>.\<close>

definition single :: "'a list \<Rightarrow> 'a option" where
  "single xs = (case xs of [x] \<Rightarrow> Some x | _ \<Rightarrow> None)"

text \<open>The select policy of \<^verbatim>\<open>hangout_suggestions\<close>: a user sees the rows they sent or
  received.\<close>

definition hs_visible :: "uuid \<Rightarrow> Database \<Rightarrow> hangout_suggestion list" where
  "hs_visible auth db =
     filter (\<lambda>h. sender_user_id h = auth \<or> recipient_user_id h = auth) (hangout_suggestions db)"

text \<open>One iteration of \<^verbatim>\<open>for (const h of allHangRows)\<close>; \<open>friendId\<close> is the other party of
  the row (\<^verbatim>\<open>"recipient_user_id" in h ? h.recipient_user_id : h.sender_user_id\<close>).\<close>

definition toHang :: "Database \<Rightarrow> hangout_suggestion \<times> uuid \<Rightarrow> Hang" where
  "toHang db hf =
     (case hf of (h, friendId) \<Rightarrow>
        \<lparr>id_hang = id_hs h,
         proposed_datetime_hang = proposed_datetime h,
         message_hang = message h,
         location_hang = location h,
         description_hang = description h,
         interest = map_option title (single (filter (\<lambda>i. id_interest i = interest_id h) (interests db))),
         friend = map_option (\<lambda>u. (first_name u, username u))
                    (single (filter (\<lambda>u. id_profile u = friendId) (users db)))\<rparr>)"

text \<open>
  The two queries (sent and received, each with its own \<^verbatim>\<open>new Date()\<close>, here \<open>now1\<close> and
  \<open>now2\<close>), their concatenation, the conversion loop and the final
  \<^verbatim>\<open>hangList.sort((a, b) => time(a) - time(b))\<close>. The database's \<^verbatim>\<open>order by\<close> and the
  stable sort of JavaScript are both the stable insertion sort \<open>sort_key\<close>.
\<close>

definition upcomingHangs :: "uuid \<Rightarrow> int \<Rightarrow> int \<Rightarrow> Database \<Rightarrow> Hang list" where
  "upcomingHangs u now1 now2 db =
     (let sentHangs = sort_key proposed_datetime
            (filter (\<lambda>h. sender_user_id h = u \<and> status h = accepted \<and> proposed_datetime h \<ge> now1)
               (hs_visible u db));
          receivedHangs = sort_key proposed_datetime
            (filter (\<lambda>h. recipient_user_id h = u \<and> status h = accepted \<and> proposed_datetime h \<ge> now2)
               (hs_visible u db));
          allHangRows = map (\<lambda>h. (h, recipient_user_id h)) sentHangs
                          @ map (\<lambda>h. (h, sender_user_id h)) receivedHangs;
          hangList = map (toHang db) allHangRows
      in sort_key proposed_datetime_hang hangList)"

section \<open>Hour strings are ordered like hours\<close>

lemma lt10_cases:
  "(k::nat) < 10 \<Longrightarrow> k = 0 \<or> k = 1 \<or> k = 2 \<or> k = 3 \<or> k = 4 \<or> k = 5 \<or> k = 6 \<or> k = 7 \<or> k = 8 \<or> k = 9"
  by arith

lemma digit_code_lt10: "k < 10 \<Longrightarrow> of_char (digit k) = (48 + k :: nat)"
  by (drule lt10_cases) (auto simp: digit_def)

lemma digit_mod: "digit (d mod 10) = digit d"
  by (simp add: digit_def)

lemma digit_code: "of_char (digit d) = (48 + d mod 10 :: nat)"
  using digit_code_lt10 [of "d mod 10"] by (simp add: digit_mod)

lemma digit_less_iff: "digit a < digit b \<longleftrightarrow> a mod 10 < b mod 10"
  by (simp add: less_char_def digit_code)

lemma digit_eq_iff: "digit a = digit b \<longleftrightarrow> a mod 10 = b mod 10"
proof
  assume "digit a = digit b"
  then have "(of_char (digit a) :: nat) = of_char (digit b)" by simp
  then show "a mod 10 = b mod 10" by (simp add: digit_code)
next
  assume "a mod 10 = b mod 10"
  then show "digit a = digit b" by (simp add: digit_def)
qed

lemma toString_lt10: "n < 10 \<Longrightarrow> toString n = [digit n]"
  by (subst toString.simps) simp

lemma toString_lt100: "10 \<le> n \<Longrightarrow> n < 100 \<Longrightarrow> toString n = [digit (n div 10), digit n]"
  by (subst toString.simps) (simp add: toString_lt10)

lemma digit_0: "digit 0 = CHR ''0''"
  by (simp add: digit_def)

lemma hourStr_two_digits:
  "h < 100 \<Longrightarrow> hourStr h = [digit (h div 10), digit h] @ '':00:00''"
  by (cases "h < 10") (simp_all add: hourStr_def padStart_def toString_lt10 toString_lt100 digit_0)

lemma div_mod_order:
  "(a::nat) < b \<longleftrightarrow> a div 10 < b div 10 \<or> a div 10 = b div 10 \<and> a mod 10 < b mod 10"
proof -
  have a: "a = 10 * (a div 10) + a mod 10" and b: "b = 10 * (b div 10) + b mod 10"
    by simp_all
  have ma: "a mod 10 < 10" and mb: "b mod 10 < 10"
    by simp_all
  define qa ra qb rb where "qa = a div 10" and "ra = a mod 10" and "qb = b div 10" and "rb = b mod 10"
  have "(10 * qa + ra < 10 * qb + rb) = (qa < qb \<or> qa = qb \<and> ra < rb)"
    using ma mb unfolding qa_def ra_def qb_def rb_def [symmetric] by linarith
  then show ?thesis
    using a b unfolding qa_def ra_def qb_def rb_def by simp
qed

text \<open>For the hours of a day (indeed for every hour below 100) the string comparison of
  the code is the comparison of the hours.\<close>

lemma hourStr_less_iff: "a < 100 \<Longrightarrow> b < 100 \<Longrightarrow> hourStr a < hourStr b \<longleftrightarrow> a < b"
proof -
  assume a: "a < 100" and b: "b < 100"
  have m: "a div 10 mod 10 = a div 10" "b div 10 mod 10 = b div 10"
    using a b by simp_all
  show ?thesis
    by (simp add: hourStr_two_digits a b digit_less_iff digit_eq_iff m div_mod_order [of a b])
qed

lemma hourStr_le_iff: "a < 100 \<Longrightarrow> b < 100 \<Longrightarrow> hourStr a \<le> hourStr b \<longleftrightarrow> a \<le> b"
  using hourStr_less_iff [of b a] by (simp add: not_less [symmetric])

lemma nextHourStr_hourStr: "nextHourStr h = hourStr (h + 1)"
  by (simp add: nextHourStr_def hourStr_def)

text \<open>Evaluation of the hour strings on numerals.\<close>

lemmas hour_eval = hourStr_def nextHourStr_def padStart_def toString.simps digit_def

section \<open>buildRange\<close>

lemma buildRange_loop_upt:
  "buildRange_loop s h m cells =
     cells @ map (\<lambda>k. \<lparr>dow = dow s, hour = k, colIdx = colIdx s\<rparr>) [h..<Suc m]"
proof (induction s h m cells rule: buildRange_loop.induct)
  case (1 start h maxH cells)
  show ?case
  proof (cases "h \<le> maxH")
    case True
    then have "[h..<Suc maxH] = h # [Suc h..<Suc maxH]"
      by (simp add: upt_conv_Cons)
    with True 1 show ?thesis
      by (subst buildRange_loop.simps) simp
  next
    case False
    then show ?thesis
      by (subst buildRange_loop.simps) simp
  qed
qed

text \<open>
  Claim C9. Two drag endpoints in the same calendar column have the same \<open>colIdx\<close> and,
  a column being one day, the same \<open>dow\<close>. With equal \<open>colIdx\<close>, \<open>buildRange\<close> returns one
  cell for every hour from the smaller to the larger endpoint hour, in ascending order, each
  with the start cell's day and column; the hours are the same when the endpoints are
  exchanged, and so is the whole result for endpoints of one column. With different
  \<open>colIdx\<close> the result is the start cell alone.
\<close>

theorem buildRange_column:
  "(colIdx s = colIdx e \<longrightarrow>
      buildRange s e = map (\<lambda>k. \<lparr>dow = dow s, hour = k, colIdx = colIdx s\<rparr>)
                         [min (hour s) (hour e)..<Suc (max (hour s) (hour e))]
      \<and> map hour (buildRange s e) = [min (hour s) (hour e)..<Suc (max (hour s) (hour e))]
      \<and> map hour (buildRange e s) = map hour (buildRange s e)
      \<and> (dow s = dow e \<longrightarrow> buildRange e s = buildRange s e))
   \<and> (colIdx s \<noteq> colIdx e \<longrightarrow> buildRange s e = [s])"
  by (simp add: buildRange_def buildRange_loop_upt Let_def min.commute max.commute comp_def)

theorem buildRange_column_witness:
  "buildRange \<lparr>dow = 3, hour = 20, colIdx = 5\<rparr> \<lparr>dow = 3, hour = 17, colIdx = 5\<rparr>
     = [\<lparr>dow = 3, hour = 17, colIdx = 5\<rparr>, \<lparr>dow = 3, hour = 18, colIdx = 5\<rparr>,
        \<lparr>dow = 3, hour = 19, colIdx = 5\<rparr>, \<lparr>dow = 3, hour = 20, colIdx = 5\<rparr>]
   \<and> buildRange \<lparr>dow = 3, hour = 17, colIdx = 5\<rparr> \<lparr>dow = 3, hour = 20, colIdx = 5\<rparr>
     = buildRange \<lparr>dow = 3, hour = 20, colIdx = 5\<rparr> \<lparr>dow = 3, hour = 17, colIdx = 5\<rparr>
   \<and> buildRange \<lparr>dow = 3, hour = 17, colIdx = 5\<rparr> \<lparr>dow = 4, hour = 20, colIdx = 6\<rparr>
     = [\<lparr>dow = 3, hour = 17, colIdx = 5\<rparr>]"
  using buildRange_column [of "\<lparr>dow = 3, hour = 20, colIdx = 5\<rparr>" "\<lparr>dow = 3, hour = 17, colIdx = 5\<rparr>"]
        buildRange_column [of "\<lparr>dow = 3, hour = 17, colIdx = 5\<rparr>" "\<lparr>dow = 4, hour = 20, colIdx = 6\<rparr>"]
  by (simp add: upt_rec)

section \<open>The availability toggle\<close>

text \<open>
  Claim C10. With no loaded profile, or with an empty selection, the handler returns at
  once: the component state and the database (table, identifier counter and pending
  request outcomes, so no request was issued) are what they were.
\<close>

theorem toggle_empty_noop:
  "profile d = None \<or> selectedCells d = [] \<Longrightarrow> handleToggleAvailability d db = (d, db)"
  by (auto simp: handleToggleAvailability_def split: option.splits)

theorem toggle_empty_noop_witness:
  "handleToggleAvailability
     \<lparr>profile = Some \<lparr>id_profile = 7, first_name = ''Ann'', username = ''ann''\<rparr>,
      availability = [\<lparr>id_avail = 1, day_of_week = 3, start_time = ''17:00:00'', end_time = ''20:00:00''\<rparr>],
      selectedCells = []\<rparr>
     \<lparr>availability_tbl = [(7, \<lparr>id_avail = 1, day_of_week = 3, start_time = ''17:00:00'', end_time = ''20:00:00''\<rparr>)],
      next_uuid = 2, faults = [True]\<rparr>
   = (\<lparr>profile = Some \<lparr>id_profile = 7, first_name = ''Ann'', username = ''ann''\<rparr>,
      availability = [\<lparr>id_avail = 1, day_of_week = 3, start_time = ''17:00:00'', end_time = ''20:00:00''\<rparr>],
      selectedCells = []\<rparr>,
     \<lparr>availability_tbl = [(7, \<lparr>id_avail = 1, day_of_week = 3, start_time = ''17:00:00'', end_time = ''20:00:00''\<rparr>)],
      next_uuid = 2, faults = [True]\<rparr>)
   \<and> handleToggleAvailability
     \<lparr>profile = None, availability = [],
      selectedCells = [\<lparr>dow = 3, hour = 17, colIdx = 0\<rparr>]\<rparr>
     \<lparr>availability_tbl = [], next_uuid = 0, faults = []\<rparr>
   = (\<lparr>profile = None, availability = [],
      selectedCells = [\<lparr>dow = 3, hour = 17, colIdx = 0\<rparr>]\<rparr>,
     \<lparr>availability_tbl = [], next_uuid = 0, faults = []\<rparr>)"
  using toggle_empty_noop [of "\<lparr>profile = Some \<lparr>id_profile = 7, first_name = ''Ann'', username = ''ann''\<rparr>,
      availability = [\<lparr>id_avail = 1, day_of_week = 3, start_time = ''17:00:00'', end_time = ''20:00:00''\<rparr>],
      selectedCells = []\<rparr>"]
    toggle_empty_noop [of "\<lparr>profile = None, availability = [],
      selectedCells = [\<lparr>dow = 3, hour = 17, colIdx = 0\<rparr>]\<rparr>"]
  by simp

lemma db_delete_fail: "next_fails db \<Longrightarrow> db_delete i db = (True, db\<lparr>faults := tl (faults db)\<rparr>)"
  by (simp add: db_delete_def)

lemma db_delete_ok:
  "\<not> next_fails db \<Longrightarrow> db_delete i db =
     (False, db\<lparr>availability_tbl := filter (\<lambda>r. id_avail (snd r) \<noteq> i) (availability_tbl db),
                faults := tl (faults db)\<rparr>)"
  by (simp add: db_delete_def)

lemma db_insert_fail: "next_fails db \<Longrightarrow> db_insert u d s e db = (None, db\<lparr>faults := tl (faults db)\<rparr>)"
  by (simp add: db_insert_def)

lemma db_insert_ok:
  "\<not> next_fails db \<Longrightarrow> db_insert u d s e db =
     (Some \<lparr>id_avail = next_uuid db, day_of_week = d, start_time = s, end_time = e\<rparr>,
      db\<lparr>availability_tbl := availability_tbl db
             @ [(u, \<lparr>id_avail = next_uuid db, day_of_week = d, start_time = s, end_time = e\<rparr>)],
         next_uuid := Suc (next_uuid db), faults := tl (faults db)\<rparr>)"
  by (simp add: db_insert_def Let_def)

lemma no_faults: "faults db = [] \<Longrightarrow> \<not> next_fails db"
  by (simp add: next_fails_def)

lemma removeHour_delete_fails:
  "next_fails db \<Longrightarrow> removeHour pid m c (st, db) = (st, db\<lparr>faults := tl (faults db)\<rparr>)"
  by (simp add: removeHour_def db_delete_fail)

lemma allAvailable_covered:
  "allAvailable snap cells \<Longrightarrow> c \<in> set cells \<Longrightarrow> \<exists>m. isCellAvailable snap (dow c) (hour c) = Some m"
  by (auto simp: allAvailable_def list_all_iff)

text \<open>
  Claim C8. In the remove path (every selected cell covered), take the iteration for a
  cell \<open>c\<close> anywhere in the selection, started in the loop state \<open>(st1, db1)\<close> the cells
  before it have produced. If the delete request of that iteration fails, the iteration
  changes neither the component state nor the table nor the identifier counter (no
  remainder is inserted, only the failed request is consumed), and the handler goes on
  with the cells after \<open>c\<close> from that state.
\<close>

theorem failed_delete_skips_hour:
  assumes "profile d = Some p" and "selectedCells d = pre @ c # post"
    and "allAvailable (availability d) (selectedCells d)"
    and "fold (toggleCell (id_profile p) (availability d) True) pre (availability d, db) = (st1, db1)"
    and "next_fails db1"
  shows "toggleCell (id_profile p) (availability d) True c (st1, db1)
           = (st1, db1\<lparr>faults := tl (faults db1)\<rparr>)
       \<and> handleToggleAvailability d db =
           (case fold (toggleCell (id_profile p) (availability d) True) post
                   (st1, db1\<lparr>faults := tl (faults db1)\<rparr>) of
              (st, db') \<Rightarrow> (d\<lparr>availability := st, selectedCells := []\<rparr>, db'))"
proof -
  obtain m where m: "isCellAvailable (availability d) (dow c) (hour c) = Some m"
    using allAvailable_covered [OF assms(3), of c] assms(2) by auto
  have step: "toggleCell (id_profile p) (availability d) True c (st1, db1)
           = (st1, db1\<lparr>faults := tl (faults db1)\<rparr>)"
    using m assms(5) by (simp add: toggleCell_def removeHour_delete_fails)
  have "handleToggleAvailability d db =
          (case fold (toggleCell (id_profile p) (availability d) True) (pre @ c # post) (availability d, db) of
              (st, db') \<Rightarrow> (d\<lparr>availability := st, selectedCells := []\<rparr>, db'))"
    using assms(1,2,3) by (simp add: handleToggleAvailability_def)
  also have "fold (toggleCell (id_profile p) (availability d) True) (pre @ c # post) (availability d, db)
      = fold (toggleCell (id_profile p) (availability d) True) post (st1, db1\<lparr>faults := tl (faults db1)\<rparr>)"
    using assms(4) step by simp
  finally show ?thesis using step by simp
qed

theorem failed_delete_skips_hour_witness:
  "handleToggleAvailability
     \<lparr>profile = Some \<lparr>id_profile = 7, first_name = ''Ann'', username = ''ann''\<rparr>,
      availability = [\<lparr>id_avail = 1, day_of_week = 3, start_time = ''17:00:00'', end_time = ''20:00:00''\<rparr>],
      selectedCells = [\<lparr>dow = 3, hour = 17, colIdx = 0\<rparr>, \<lparr>dow = 3, hour = 18, colIdx = 0\<rparr>]\<rparr>
     \<lparr>availability_tbl = [(7, \<lparr>id_avail = 1, day_of_week = 3, start_time = ''17:00:00'', end_time = ''20:00:00''\<rparr>)],
      next_uuid = 2, faults = [True]\<rparr>
   = (\<lparr>profile = Some \<lparr>id_profile = 7, first_name = ''Ann'', username = ''ann''\<rparr>,
      availability = [\<lparr>id_avail = 2, day_of_week = 3, start_time = ''17:00:00'', end_time = ''18:00:00''\<rparr>,
                      \<lparr>id_avail = 3, day_of_week = 3, start_time = ''19:00:00'', end_time = ''20:00:00''\<rparr>],
      selectedCells = []\<rparr>,
      \<lparr>availability_tbl = [(7, \<lparr>id_avail = 2, day_of_week = 3, start_time = ''17:00:00'', end_time = ''18:00:00''\<rparr>),
                           (7, \<lparr>id_avail = 3, day_of_week = 3, start_time = ''19:00:00'', end_time = ''20:00:00''\<rparr>)],
      next_uuid = 4, faults = []\<rparr>)"
  using failed_delete_skips_hour [of
     "\<lparr>profile = Some \<lparr>id_profile = 7, first_name = ''Ann'', username = ''ann''\<rparr>,
      availability = [\<lparr>id_avail = 1, day_of_week = 3, start_time = ''17:00:00'', end_time = ''20:00:00''\<rparr>],
      selectedCells = [\<lparr>dow = 3, hour = 17, colIdx = 0\<rparr>, \<lparr>dow = 3, hour = 18, colIdx = 0\<rparr>]\<rparr>"
     "\<lparr>id_profile = 7, first_name = ''Ann'', username = ''ann''\<rparr>"
     "[]" "\<lparr>dow = 3, hour = 17, colIdx = 0\<rparr>" "[\<lparr>dow = 3, hour = 18, colIdx = 0\<rparr>]"
     "\<lparr>availability_tbl = [(7, \<lparr>id_avail = 1, day_of_week = 3, start_time = ''17:00:00'', end_time = ''20:00:00''\<rparr>)],
      next_uuid = 2, faults = [True]\<rparr>"
     "[\<lparr>id_avail = 1, day_of_week = 3, start_time = ''17:00:00'', end_time = ''20:00:00''\<rparr>]"
     "\<lparr>availability_tbl = [(7, \<lparr>id_avail = 1, day_of_week = 3, start_time = ''17:00:00'', end_time = ''20:00:00''\<rparr>)],
      next_uuid = 2, faults = [True]\<rparr>"]
  by (simp add: allAvailable_def isCellAvailable_def hour_eval next_fails_def toggleCell_def
        removeHour_def db_delete_def db_insert_def Let_def)

lemma removeHour_ok:
  "\<not> next_fails db \<Longrightarrow> tl (faults db) = [] \<Longrightarrow>
   removeHour pid m c (st, db) =
     (let L = (if start_time m < hourStr (hour c)
               then [\<lparr>id_avail = next_uuid db, day_of_week = dow c,
                      start_time = start_time m, end_time = hourStr (hour c)\<rparr>] else []);
          R = (if nextHourStr (hour c) < end_time m
               then [\<lparr>id_avail = next_uuid db + length L, day_of_week = dow c,
                      start_time = nextHourStr (hour c), end_time = end_time m\<rparr>] else [])
      in (filter (\<lambda>a. id_avail a \<noteq> id_avail m) st @ L @ R,
          db\<lparr>availability_tbl := filter (\<lambda>r. id_avail (snd r) \<noteq> id_avail m) (availability_tbl db)
                                    @ map (Pair pid) (L @ R),
             next_uuid := next_uuid db + length (L @ R),
             faults := []\<rparr>))"
  by (simp add: removeHour_def db_delete_ok db_insert_ok next_fails_def Let_def)

text \<open>
  Claim C3. A toggle whose selection is one cell covered by the stored row \<open>m\<close>
  (the first covering row of the state), all requests succeeding, deletes \<open>m\<close> and
  inserts the remainder from the start of \<open>m\<close> to the hour when the start of \<open>m\<close> is
  before the hour, and the remainder from the next hour to the end of \<open>m\<close> when the next
  hour is before the end of \<open>m\<close>; nothing else changes. On whole hours the string
  comparisons are the comparisons \<open>s < hour\<close> and \<open>hour + 1 < e\<close>. For the row
  17:00 to 20:00 on day 3 and the selection hour 18 the result is exactly the two rows
  17:00 to 18:00 and 19:00 to 20:00, and hour 18 is no longer available.
\<close>

theorem remove_single_hour_splits:
  "(profile d = Some p \<and> selectedCells d = [c]
      \<and> isCellAvailable (availability d) (dow c) (hour c) = Some m \<and> faults db = [] \<longrightarrow>
     handleToggleAvailability d db =
       (let L = (if start_time m < hourStr (hour c)
                 then [\<lparr>id_avail = next_uuid db, day_of_week = dow c,
                        start_time = start_time m, end_time = hourStr (hour c)\<rparr>] else []);
            R = (if nextHourStr (hour c) < end_time m
                 then [\<lparr>id_avail = next_uuid db + length L, day_of_week = dow c,
                        start_time = nextHourStr (hour c), end_time = end_time m\<rparr>] else [])
        in (d\<lparr>availability := filter (\<lambda>a. id_avail a \<noteq> id_avail m) (availability d) @ L @ R,
              selectedCells := []\<rparr>,
            db\<lparr>availability_tbl := filter (\<lambda>r. id_avail (snd r) \<noteq> id_avail m) (availability_tbl db)
                                      @ map (Pair (id_profile p)) (L @ R),
               next_uuid := next_uuid db + length (L @ R),
               faults := []\<rparr>)))
   \<and> (s < 100 \<and> h < 99 \<and> e < 100 \<longrightarrow>
        (hourStr s < hourStr h \<longleftrightarrow> s < h) \<and> (nextHourStr h < hourStr e \<longleftrightarrow> h + 1 < e))
   \<and> handleToggleAvailability
        \<lparr>profile = Some \<lparr>id_profile = 7, first_name = ''Ann'', username = ''ann''\<rparr>,
         availability = [\<lparr>id_avail = 1, day_of_week = 3, start_time = ''17:00:00'', end_time = ''20:00:00''\<rparr>],
         selectedCells = [\<lparr>dow = 3, hour = 18, colIdx = 0\<rparr>]\<rparr>
        \<lparr>availability_tbl = [(7, \<lparr>id_avail = 1, day_of_week = 3, start_time = ''17:00:00'', end_time = ''20:00:00''\<rparr>)],
         next_uuid = 2, faults = []\<rparr>
      = (\<lparr>profile = Some \<lparr>id_profile = 7, first_name = ''Ann'', username = ''ann''\<rparr>,
         availability = [\<lparr>id_avail = 2, day_of_week = 3, start_time = ''17:00:00'', end_time = ''18:00:00''\<rparr>,
                         \<lparr>id_avail = 3, day_of_week = 3, start_time = ''19:00:00'', end_time = ''20:00:00''\<rparr>],
         selectedCells = []\<rparr>,
         \<lparr>availability_tbl = [(7, \<lparr>id_avail = 2, day_of_week = 3, start_time = ''17:00:00'', end_time = ''18:00:00''\<rparr>),
                              (7, \<lparr>id_avail = 3, day_of_week = 3, start_time = ''19:00:00'', end_time = ''20:00:00''\<rparr>)],
         next_uuid = 4, faults = []\<rparr>)
   \<and> isCellAvailable
        [\<lparr>id_avail = 2, day_of_week = 3, start_time = ''17:00:00'', end_time = ''18:00:00''\<rparr>,
         \<lparr>id_avail = 3, day_of_week = 3, start_time = ''19:00:00'', end_time = ''20:00:00''\<rparr>] 3 18 = None"
proof (intro conjI impI)
  assume a: "profile d = Some p \<and> selectedCells d = [c]
      \<and> isCellAvailable (availability d) (dow c) (hour c) = Some m \<and> faults db = []"
  then have "allAvailable (availability d) [c]"
    by (simp add: allAvailable_def)
  with a show "handleToggleAvailability d db =
       (let L = (if start_time m < hourStr (hour c)
                 then [\<lparr>id_avail = next_uuid db, day_of_week = dow c,
                        start_time = start_time m, end_time = hourStr (hour c)\<rparr>] else []);
            R = (if nextHourStr (hour c) < end_time m
                 then [\<lparr>id_avail = next_uuid db + length L, day_of_week = dow c,
                        start_time = nextHourStr (hour c), end_time = end_time m\<rparr>] else [])
        in (d\<lparr>availability := filter (\<lambda>a. id_avail a \<noteq> id_avail m) (availability d) @ L @ R,
              selectedCells := []\<rparr>,
            db\<lparr>availability_tbl := filter (\<lambda>r. id_avail (snd r) \<noteq> id_avail m) (availability_tbl db)
                                      @ map (Pair (id_profile p)) (L @ R),
               next_uuid := next_uuid db + length (L @ R),
               faults := []\<rparr>))"
    by (simp add: handleToggleAvailability_def toggleCell_def removeHour_ok no_faults Let_def)
next
  assume "s < 100 \<and> h < 99 \<and> e < 100"
  then show "hourStr s < hourStr h \<longleftrightarrow> s < h"
    by (simp add: hourStr_less_iff)
next
  assume "s < 100 \<and> h < 99 \<and> e < 100"
  then show "nextHourStr h < hourStr e \<longleftrightarrow> h + 1 < e"
    by (simp add: nextHourStr_hourStr hourStr_less_iff)
next
  show "handleToggleAvailability
        \<lparr>profile = Some \<lparr>id_profile = 7, first_name = ''Ann'', username = ''ann''\<rparr>,
         availability = [\<lparr>id_avail = 1, day_of_week = 3, start_time = ''17:00:00'', end_time = ''20:00:00''\<rparr>],
         selectedCells = [\<lparr>dow = 3, hour = 18, colIdx = 0\<rparr>]\<rparr>
        \<lparr>availability_tbl = [(7, \<lparr>id_avail = 1, day_of_week = 3, start_time = ''17:00:00'', end_time = ''20:00:00''\<rparr>)],
         next_uuid = 2, faults = []\<rparr>
      = (\<lparr>profile = Some \<lparr>id_profile = 7, first_name = ''Ann'', username = ''ann''\<rparr>,
         availability = [\<lparr>id_avail = 2, day_of_week = 3, start_time = ''17:00:00'', end_time = ''18:00:00''\<rparr>,
                         \<lparr>id_avail = 3, day_of_week = 3, start_time = ''19:00:00'', end_time = ''20:00:00''\<rparr>],
         selectedCells = []\<rparr>,
         \<lparr>availability_tbl = [(7, \<lparr>id_avail = 2, day_of_week = 3, start_time = ''17:00:00'', end_time = ''18:00:00''\<rparr>),
                              (7, \<lparr>id_avail = 3, day_of_week = 3, start_time = ''19:00:00'', end_time = ''20:00:00''\<rparr>)],
         next_uuid = 4, faults = []\<rparr>)"
    by (simp add: handleToggleAvailability_def allAvailable_def isCellAvailable_def hour_eval
          next_fails_def toggleCell_def removeHour_def db_delete_def db_insert_def Let_def)
next
  show "isCellAvailable
        [\<lparr>id_avail = 2, day_of_week = 3, start_time = ''17:00:00'', end_time = ''18:00:00''\<rparr>,
         \<lparr>id_avail = 3, day_of_week = 3, start_time = ''19:00:00'', end_time = ''20:00:00''\<rparr>] 3 18 = None"
    by (simp add: isCellAvailable_def hour_eval)
qed

theorem remove_single_hour_splits_witness:
  "handleToggleAvailability
        \<lparr>profile = Some \<lparr>id_profile = 7, first_name = ''Ann'', username = ''ann''\<rparr>,
         availability = [\<lparr>id_avail = 1, day_of_week = 1, start_time = ''09:00:00'', end_time = ''12:00:00''\<rparr>],
         selectedCells = [\<lparr>dow = 1, hour = 9, colIdx = 2\<rparr>]\<rparr>
        \<lparr>availability_tbl = [(7, \<lparr>id_avail = 1, day_of_week = 1, start_time = ''09:00:00'', end_time = ''12:00:00''\<rparr>)],
         next_uuid = 2, faults = []\<rparr>
      = (\<lparr>profile = Some \<lparr>id_profile = 7, first_name = ''Ann'', username = ''ann''\<rparr>,
         availability = [\<lparr>id_avail = 2, day_of_week = 1, start_time = ''10:00:00'', end_time = ''12:00:00''\<rparr>],
         selectedCells = []\<rparr>,
         \<lparr>availability_tbl = [(7, \<lparr>id_avail = 2, day_of_week = 1, start_time = ''10:00:00'', end_time = ''12:00:00''\<rparr>)],
         next_uuid = 3, faults = []\<rparr>)
   \<and> (hourStr 9 < hourStr 9) = False \<and> (nextHourStr 9 < hourStr 12) = True"
  using remove_single_hour_splits [of
      "\<lparr>profile = Some \<lparr>id_profile = 7, first_name = ''Ann'', username = ''ann''\<rparr>,
         availability = [\<lparr>id_avail = 1, day_of_week = 1, start_time = ''09:00:00'', end_time = ''12:00:00''\<rparr>],
         selectedCells = [\<lparr>dow = 1, hour = 9, colIdx = 2\<rparr>]\<rparr>"
      "\<lparr>id_profile = 7, first_name = ''Ann'', username = ''ann''\<rparr>"
      "\<lparr>dow = 1, hour = 9, colIdx = 2\<rparr>"
      "\<lparr>id_avail = 1, day_of_week = 1, start_time = ''09:00:00'', end_time = ''12:00:00''\<rparr>"
      "\<lparr>availability_tbl = [(7, \<lparr>id_avail = 1, day_of_week = 1, start_time = ''09:00:00'', end_time = ''12:00:00''\<rparr>)],
         next_uuid = 2, faults = []\<rparr>"
      9 9 12]
  by (simp add: isCellAvailable_def hour_eval)

lemma isCellAvailable_None_iff:
  "isCellAvailable snap day h = None \<longleftrightarrow>
     \<not> (\<exists>a\<in>set snap. day_of_week a = day \<and> start_time a \<le> hourStr h \<and> nextHourStr h \<le> end_time a)"
  by (auto simp: isCellAvailable_def find_None_iff)

lemma allAvailable_iff:
  "allAvailable snap cells \<longleftrightarrow>
     (\<forall>c\<in>set cells. \<exists>a\<in>set snap. day_of_week a = dow c \<and> start_time a \<le> hourStr (hour c)
                                      \<and> nextHourStr (hour c) \<le> end_time a)"
  by (auto simp: allAvailable_def list_all_iff isCellAvailable_None_iff)

lemma fold_remove_path:
  "list_all (\<lambda>c. isCellAvailable snap (dow c) (hour c) \<noteq> None) cells \<Longrightarrow>
   fold (toggleCell pid snap True) cells acc
     = fold (\<lambda>c. removeHour pid (the (isCellAvailable snap (dow c) (hour c))) c) cells acc"
  by (induction cells arbitrary: acc) (auto simp: toggleCell_def)

lemma addHour_fail: "next_fails db \<Longrightarrow> addHour pid c (st, db) = (st, db\<lparr>faults := tl (faults db)\<rparr>)"
  by (simp add: addHour_def db_insert_fail)

lemma addHour_ok:
  "\<not> next_fails db \<Longrightarrow> addHour pid c (st, db) =
     (st @ [\<lparr>id_avail = next_uuid db, day_of_week = dow c,
             start_time = hourStr (hour c), end_time = nextHourStr (hour c)\<rparr>],
      db\<lparr>availability_tbl := availability_tbl db
             @ [(pid, \<lparr>id_avail = next_uuid db, day_of_week = dow c,
                       start_time = hourStr (hour c), end_time = nextHourStr (hour c)\<rparr>)],
         next_uuid := Suc (next_uuid db), faults := tl (faults db)\<rparr>)"
  by (simp add: addHour_def db_insert_ok)

lemma fold_add_path:
  "\<exists>new db'. fold (toggleCell pid snap False) cells (st, db) = (st @ map snd new, db')
      \<and> availability_tbl db' = availability_tbl db @ new
      \<and> (\<forall>r\<in>set new. \<exists>c\<in>set cells. isCellAvailable snap (dow c) (hour c) = None
             \<and> r = (pid, \<lparr>id_avail = id_avail (snd r), day_of_week = dow c,
                          start_time = hourStr (hour c), end_time = nextHourStr (hour c)\<rparr>))"
proof (induction cells arbitrary: st db)
  case Nil
  show ?case by simp
next
  case (Cons c cells)
  show ?case
  proof (cases "isCellAvailable snap (dow c) (hour c)")
    case (Some m)
    with Cons [of st db] show ?thesis
      by (auto simp: toggleCell_def)
  next
    case None
    show ?thesis
    proof (cases "next_fails db")
      case True
      with None Cons [of st "db\<lparr>faults := tl (faults db)\<rparr>"] show ?thesis
        by (auto simp: toggleCell_def addHour_fail)
    next
      case False
      let ?row = "\<lparr>id_avail = next_uuid db, day_of_week = dow c,
             start_time = hourStr (hour c), end_time = nextHourStr (hour c)\<rparr>"
      let ?db1 = "db\<lparr>availability_tbl := availability_tbl db @ [(pid, ?row)],
         next_uuid := Suc (next_uuid db), faults := tl (faults db)\<rparr>"
      from Cons [of "st @ [?row]" ?db1] obtain new db' where
        n: "fold (toggleCell pid snap False) cells (st @ [?row], ?db1) = ((st @ [?row]) @ map snd new, db')"
          "availability_tbl db' = availability_tbl ?db1 @ new"
          "\<forall>r\<in>set new. \<exists>c\<in>set cells. isCellAvailable snap (dow c) (hour c) = None
             \<and> r = (pid, \<lparr>id_avail = id_avail (snd r), day_of_week = dow c,
                          start_time = hourStr (hour c), end_time = nextHourStr (hour c)\<rparr>)"
        by blast
      have "fold (toggleCell pid snap False) (c # cells) (st, db) = (st @ map snd ((pid, ?row) # new), db')"
        using None False n(1) by (simp add: toggleCell_def addHour_ok)
      moreover have "availability_tbl db' = availability_tbl db @ ((pid, ?row) # new)"
        using n(2) by simp
      moreover have "\<forall>r\<in>set ((pid, ?row) # new). \<exists>c'\<in>set (c # cells). isCellAvailable snap (dow c') (hour c') = None
             \<and> r = (pid, \<lparr>id_avail = id_avail (snd r), day_of_week = dow c',
                          start_time = hourStr (hour c'), end_time = nextHourStr (hour c')\<rparr>)"
        using n(3) None by auto
      ultimately show ?thesis by blast
    qed
  qed
qed

lemma fold_add_path_no_faults:
  "faults db = [] \<Longrightarrow>
   fold (toggleCell pid snap False) cells (st, db) =
     (let new = map (\<lambda>(i, c). (pid, \<lparr>id_avail = i, day_of_week = dow c,
                                   start_time = hourStr (hour c), end_time = nextHourStr (hour c)\<rparr>))
                  (enumerate (next_uuid db)
                     (filter (\<lambda>c. isCellAvailable snap (dow c) (hour c) = None) cells))
      in (st @ map snd new,
          db\<lparr>availability_tbl := availability_tbl db @ new,
             next_uuid := next_uuid db + length new\<rparr>))"
proof (induction cells arbitrary: st db)
  case Nil
  then show ?case by simp
next
  case (Cons c cells)
  show ?case
  proof (cases "isCellAvailable snap (dow c) (hour c)")
    case (Some m)
    with Cons show ?thesis by (simp add: toggleCell_def)
  next
    case None
    let ?row = "\<lparr>id_avail = next_uuid db, day_of_week = dow c,
             start_time = hourStr (hour c), end_time = nextHourStr (hour c)\<rparr>"
    let ?db1 = "db\<lparr>availability_tbl := availability_tbl db @ [(pid, ?row)],
         next_uuid := Suc (next_uuid db), faults := tl (faults db)\<rparr>"
    have f: "faults ?db1 = []" using Cons.prems by simp
    have "fold (toggleCell pid snap False) (c # cells) (st, db)
            = fold (toggleCell pid snap False) cells (st @ [?row], ?db1)"
      using None Cons.prems by (simp add: toggleCell_def addHour_ok no_faults)
    also note Cons.IH [OF f, of "st @ [?row]"]
    finally show ?thesis
      using None Cons.prems by (simp add: Let_def)
  qed
qed

text \<open>
  Claim C2. For a selection and a state: (1) the handler's test \<open>allAvailable\<close> holds
  exactly when every selected cell is covered by some stored row of its day; (2) when it
  holds (and the selection is not empty) the handler runs the remove branch for every
  selected cell, with the cell's covering row; (3) otherwise it runs the add path: the
  rows before stay, in the table and in the component state, and every row added is the
  one-hour row \<open>[hour, hour + 1)\<close> of a selected cell that was not covered, whatever
  requests fail; (4) when no request fails the added rows are exactly the one-hour rows of
  the uncovered selected cells, in selection order. For the row 17:00 to 20:00 on day 3
  and the selection 17, 18, 19, 20: the test fails, only 20:00 to 21:00 is inserted and
  the stored row stays.
\<close>

theorem toggle_direction:
  "(allAvailable snap cells \<longleftrightarrow>
      (\<forall>c\<in>set cells. \<exists>a\<in>set snap. day_of_week a = dow c \<and> start_time a \<le> hourStr (hour c)
                                       \<and> nextHourStr (hour c) \<le> end_time a))
   \<and> (profile d = Some p \<and> selectedCells d \<noteq> [] \<and> allAvailable (availability d) (selectedCells d) \<longrightarrow>
        handleToggleAvailability d db =
          (case fold (\<lambda>c. removeHour (id_profile p)
                            (the (isCellAvailable (availability d) (dow c) (hour c))) c)
                  (selectedCells d) (availability d, db) of
             (st, db') \<Rightarrow> (d\<lparr>availability := st, selectedCells := []\<rparr>, db')))
   \<and> (profile d = Some p \<and> selectedCells d \<noteq> [] \<and> \<not> allAvailable (availability d) (selectedCells d) \<longrightarrow>
        (\<exists>new db'.
           handleToggleAvailability d db
             = (d\<lparr>availability := availability d @ map snd new, selectedCells := []\<rparr>, db')
           \<and> availability_tbl db' = availability_tbl db @ new
           \<and> (\<forall>r\<in>set new. \<exists>c\<in>set (selectedCells d).
                  isCellAvailable (availability d) (dow c) (hour c) = None
                  \<and> r = (id_profile p, \<lparr>id_avail = id_avail (snd r), day_of_week = dow c,
                            start_time = hourStr (hour c), end_time = nextHourStr (hour c)\<rparr>))))
   \<and> (profile d = Some p \<and> selectedCells d \<noteq> [] \<and> \<not> allAvailable (availability d) (selectedCells d)
        \<and> faults db = [] \<longrightarrow>
        handleToggleAvailability d db =
          (let new = map (\<lambda>(i, c). (id_profile p, \<lparr>id_avail = i, day_of_week = dow c,
                                        start_time = hourStr (hour c), end_time = nextHourStr (hour c)\<rparr>))
                       (enumerate (next_uuid db)
                          (filter (\<lambda>c. isCellAvailable (availability d) (dow c) (hour c) = None)
                             (selectedCells d)))
           in (d\<lparr>availability := availability d @ map snd new, selectedCells := []\<rparr>,
               db\<lparr>availability_tbl := availability_tbl db @ new,
                  next_uuid := next_uuid db + length new\<rparr>)))
   \<and> \<not> allAvailable
          [\<lparr>id_avail = 1, day_of_week = 3, start_time = ''17:00:00'', end_time = ''20:00:00''\<rparr>]
          [\<lparr>dow = 3, hour = 17, colIdx = 0\<rparr>, \<lparr>dow = 3, hour = 18, colIdx = 0\<rparr>,
           \<lparr>dow = 3, hour = 19, colIdx = 0\<rparr>, \<lparr>dow = 3, hour = 20, colIdx = 0\<rparr>]
   \<and> handleToggleAvailability
        \<lparr>profile = Some \<lparr>id_profile = 7, first_name = ''Ann'', username = ''ann''\<rparr>,
         availability = [\<lparr>id_avail = 1, day_of_week = 3, start_time = ''17:00:00'', end_time = ''20:00:00''\<rparr>],
         selectedCells = [\<lparr>dow = 3, hour = 17, colIdx = 0\<rparr>, \<lparr>dow = 3, hour = 18, colIdx = 0\<rparr>,
                          \<lparr>dow = 3, hour = 19, colIdx = 0\<rparr>, \<lparr>dow = 3, hour = 20, colIdx = 0\<rparr>]\<rparr>
        \<lparr>availability_tbl = [(7, \<lparr>id_avail = 1, day_of_week = 3, start_time = ''17:00:00'', end_time = ''20:00:00''\<rparr>)],
         next_uuid = 2, faults = []\<rparr>
      = (\<lparr>profile = Some \<lparr>id_profile = 7, first_name = ''Ann'', username = ''ann''\<rparr>,
         availability = [\<lparr>id_avail = 1, day_of_week = 3, start_time = ''17:00:00'', end_time = ''20:00:00''\<rparr>,
                         \<lparr>id_avail = 2, day_of_week = 3, start_time = ''20:00:00'', end_time = ''21:00:00''\<rparr>],
         selectedCells = []\<rparr>,
         \<lparr>availability_tbl = [(7, \<lparr>id_avail = 1, day_of_week = 3, start_time = ''17:00:00'', end_time = ''20:00:00''\<rparr>),
                              (7, \<lparr>id_avail = 2, day_of_week = 3, start_time = ''20:00:00'', end_time = ''21:00:00''\<rparr>)],
         next_uuid = 3, faults = []\<rparr>)"
proof (intro conjI impI)
  show "allAvailable snap cells \<longleftrightarrow>
      (\<forall>c\<in>set cells. \<exists>a\<in>set snap. day_of_week a = dow c \<and> start_time a \<le> hourStr (hour c)
                                       \<and> nextHourStr (hour c) \<le> end_time a)"
    by (rule allAvailable_iff)
next
  assume a: "profile d = Some p \<and> selectedCells d \<noteq> [] \<and> allAvailable (availability d) (selectedCells d)"
  then have "list_all (\<lambda>c. isCellAvailable (availability d) (dow c) (hour c) \<noteq> None) (selectedCells d)"
    by (simp add: allAvailable_def)
  from fold_remove_path [OF this] a
  show "handleToggleAvailability d db =
          (case fold (\<lambda>c. removeHour (id_profile p)
                            (the (isCellAvailable (availability d) (dow c) (hour c))) c)
                  (selectedCells d) (availability d, db) of
             (st, db') \<Rightarrow> (d\<lparr>availability := st, selectedCells := []\<rparr>, db'))"
    by (simp add: handleToggleAvailability_def)
next
  assume a: "profile d = Some p \<and> selectedCells d \<noteq> [] \<and> \<not> allAvailable (availability d) (selectedCells d)"
  from fold_add_path [of "id_profile p" "availability d" "selectedCells d" "availability d" db]
  obtain new db' where
    n: "fold (toggleCell (id_profile p) (availability d) False) (selectedCells d) (availability d, db)
          = (availability d @ map snd new, db')"
       "availability_tbl db' = availability_tbl db @ new"
       "\<forall>r\<in>set new. \<exists>c\<in>set (selectedCells d).
                  isCellAvailable (availability d) (dow c) (hour c) = None
                  \<and> r = (id_profile p, \<lparr>id_avail = id_avail (snd r), day_of_week = dow c,
                            start_time = hourStr (hour c), end_time = nextHourStr (hour c)\<rparr>)"
    by blast
  have "handleToggleAvailability d db
          = (d\<lparr>availability := availability d @ map snd new, selectedCells := []\<rparr>, db')"
    using a n(1) by (simp add: handleToggleAvailability_def)
  with n(2,3)
  show "\<exists>new db'.
           handleToggleAvailability d db
             = (d\<lparr>availability := availability d @ map snd new, selectedCells := []\<rparr>, db')
           \<and> availability_tbl db' = availability_tbl db @ new
           \<and> (\<forall>r\<in>set new. \<exists>c\<in>set (selectedCells d).
                  isCellAvailable (availability d) (dow c) (hour c) = None
                  \<and> r = (id_profile p, \<lparr>id_avail = id_avail (snd r), day_of_week = dow c,
                            start_time = hourStr (hour c), end_time = nextHourStr (hour c)\<rparr>))"
    by blast
next
  assume a: "profile d = Some p \<and> selectedCells d \<noteq> [] \<and> \<not> allAvailable (availability d) (selectedCells d)
        \<and> faults db = []"
  then have f: "faults db = []" by simp
  show "handleToggleAvailability d db =
          (let new = map (\<lambda>(i, c). (id_profile p, \<lparr>id_avail = i, day_of_week = dow c,
                                        start_time = hourStr (hour c), end_time = nextHourStr (hour c)\<rparr>))
                       (enumerate (next_uuid db)
                          (filter (\<lambda>c. isCellAvailable (availability d) (dow c) (hour c) = None)
                             (selectedCells d)))
           in (d\<lparr>availability := availability d @ map snd new, selectedCells := []\<rparr>,
               db\<lparr>availability_tbl := availability_tbl db @ new,
                  next_uuid := next_uuid db + length new\<rparr>))"
    using a by (simp add: handleToggleAvailability_def fold_add_path_no_faults [OF f] Let_def)
next
  show "\<not> allAvailable
          [\<lparr>id_avail = 1, day_of_week = 3, start_time = ''17:00:00'', end_time = ''20:00:00''\<rparr>]
          [\<lparr>dow = 3, hour = 17, colIdx = 0\<rparr>, \<lparr>dow = 3, hour = 18, colIdx = 0\<rparr>,
           \<lparr>dow = 3, hour = 19, colIdx = 0\<rparr>, \<lparr>dow = 3, hour = 20, colIdx = 0\<rparr>]"
    by (simp add: allAvailable_def isCellAvailable_def hour_eval)
next
  show "handleToggleAvailability
        \<lparr>profile = Some \<lparr>id_profile = 7, first_name = ''Ann'', username = ''ann''\<rparr>,
         availability = [\<lparr>id_avail = 1, day_of_week = 3, start_time = ''17:00:00'', end_time = ''20:00:00''\<rparr>],
         selectedCells = [\<lparr>dow = 3, hour = 17, colIdx = 0\<rparr>, \<lparr>dow = 3, hour = 18, colIdx = 0\<rparr>,
                          \<lparr>dow = 3, hour = 19, colIdx = 0\<rparr>, \<lparr>dow = 3, hour = 20, colIdx = 0\<rparr>]\<rparr>
        \<lparr>availability_tbl = [(7, \<lparr>id_avail = 1, day_of_week = 3, start_time = ''17:00:00'', end_time = ''20:00:00''\<rparr>)],
         next_uuid = 2, faults = []\<rparr>
      = (\<lparr>profile = Some \<lparr>id_profile = 7, first_name = ''Ann'', username = ''ann''\<rparr>,
         availability = [\<lparr>id_avail = 1, day_of_week = 3, start_time = ''17:00:00'', end_time = ''20:00:00''\<rparr>,
                         \<lparr>id_avail = 2, day_of_week = 3, start_time = ''20:00:00'', end_time = ''21:00:00''\<rparr>],
         selectedCells = []\<rparr>,
         \<lparr>availability_tbl = [(7, \<lparr>id_avail = 1, day_of_week = 3, start_time = ''17:00:00'', end_time = ''20:00:00''\<rparr>),
                              (7, \<lparr>id_avail = 2, day_of_week = 3, start_time = ''20:00:00'', end_time = ''21:00:00''\<rparr>)],
         next_uuid = 3, faults = []\<rparr>)"
    by (simp add: handleToggleAvailability_def allAvailable_def isCellAvailable_def hour_eval
          next_fails_def toggleCell_def addHour_def db_insert_def Let_def)
qed

theorem toggle_direction_witness:
  "handleToggleAvailability
        \<lparr>profile = Some \<lparr>id_profile = 7, first_name = ''Ann'', username = ''ann''\<rparr>,
         availability = [\<lparr>id_avail = 1, day_of_week = 2, start_time = ''09:00:00'', end_time = ''10:00:00''\<rparr>],
         selectedCells = [\<lparr>dow = 2, hour = 9, colIdx = 1\<rparr>, \<lparr>dow = 2, hour = 10, colIdx = 1\<rparr>,
                          \<lparr>dow = 2, hour = 11, colIdx = 1\<rparr>]\<rparr>
        \<lparr>availability_tbl = [(7, \<lparr>id_avail = 1, day_of_week = 2, start_time = ''09:00:00'', end_time = ''10:00:00''\<rparr>)],
         next_uuid = 2, faults = []\<rparr>
      = (\<lparr>profile = Some \<lparr>id_profile = 7, first_name = ''Ann'', username = ''ann''\<rparr>,
         availability = [\<lparr>id_avail = 1, day_of_week = 2, start_time = ''09:00:00'', end_time = ''10:00:00''\<rparr>,
                         \<lparr>id_avail = 2, day_of_week = 2, start_time = ''10:00:00'', end_time = ''11:00:00''\<rparr>,
                         \<lparr>id_avail = 3, day_of_week = 2, start_time = ''11:00:00'', end_time = ''12:00:00''\<rparr>],
         selectedCells = []\<rparr>,
         \<lparr>availability_tbl = [(7, \<lparr>id_avail = 1, day_of_week = 2, start_time = ''09:00:00'', end_time = ''10:00:00''\<rparr>),
                              (7, \<lparr>id_avail = 2, day_of_week = 2, start_time = ''10:00:00'', end_time = ''11:00:00''\<rparr>),
                              (7, \<lparr>id_avail = 3, day_of_week = 2, start_time = ''11:00:00'', end_time = ''12:00:00''\<rparr>)],
         next_uuid = 4, faults = []\<rparr>)"
  using toggle_direction [of
      "[\<lparr>id_avail = 1, day_of_week = 2, start_time = ''09:00:00'', end_time = ''10:00:00''\<rparr>]"
      "[\<lparr>dow = 2, hour = 9, colIdx = 1\<rparr>, \<lparr>dow = 2, hour = 10, colIdx = 1\<rparr>, \<lparr>dow = 2, hour = 11, colIdx = 1\<rparr>]"
      "\<lparr>profile = Some \<lparr>id_profile = 7, first_name = ''Ann'', username = ''ann''\<rparr>,
         availability = [\<lparr>id_avail = 1, day_of_week = 2, start_time = ''09:00:00'', end_time = ''10:00:00''\<rparr>],
         selectedCells = [\<lparr>dow = 2, hour = 9, colIdx = 1\<rparr>, \<lparr>dow = 2, hour = 10, colIdx = 1\<rparr>,
                          \<lparr>dow = 2, hour = 11, colIdx = 1\<rparr>]\<rparr>"
      "\<lparr>id_profile = 7, first_name = ''Ann'', username = ''ann''\<rparr>"
      "\<lparr>availability_tbl = [(7, \<lparr>id_avail = 1, day_of_week = 2, start_time = ''09:00:00'', end_time = ''10:00:00''\<rparr>)],
         next_uuid = 2, faults = []\<rparr>"]
  by (simp add: allAvailable_def isCellAvailable_def hour_eval enumerate_eq_zip upt_rec)

text \<open>
  Claim C1, evaluated where it fails. The user has 17:00 to 20:00 on day 3 (and 17:00 to
  21:00 on day 4, which puts hour 20 on the grid) and selects the hours 17 to 20 of day 3.
  The first toggle is an add (hour 20 is not covered) and inserts 20:00 to 21:00. With
  the same selection again, every cell is covered and the toggle is a remove. The cells
  17, 18 and 19 all find the row 17:00 to 20:00 in the state the handler closed over: it
  is deleted once, and each of the three iterations inserts its own remainders, which
  cover the other two hours. After the round trip four rows of day 3 are stored and the
  hours 17, 18, 19 are still available.
\<close>

theorem round_trip_leaves_coverage:
  "\<not> allAvailable
       [\<lparr>id_avail = 1, day_of_week = 3, start_time = ''17:00:00'', end_time = ''20:00:00''\<rparr>,
        \<lparr>id_avail = 2, day_of_week = 4, start_time = ''17:00:00'', end_time = ''21:00:00''\<rparr>]
       [\<lparr>dow = 3, hour = 17, colIdx = 0\<rparr>, \<lparr>dow = 3, hour = 18, colIdx = 0\<rparr>,
        \<lparr>dow = 3, hour = 19, colIdx = 0\<rparr>, \<lparr>dow = 3, hour = 20, colIdx = 0\<rparr>]
   \<and> handleToggleAvailability
        \<lparr>profile = Some \<lparr>id_profile = 7, first_name = ''Ann'', username = ''ann''\<rparr>,
         availability =
           [\<lparr>id_avail = 1, day_of_week = 3, start_time = ''17:00:00'', end_time = ''20:00:00''\<rparr>,
            \<lparr>id_avail = 2, day_of_week = 4, start_time = ''17:00:00'', end_time = ''21:00:00''\<rparr>],
         selectedCells = [\<lparr>dow = 3, hour = 17, colIdx = 0\<rparr>, \<lparr>dow = 3, hour = 18, colIdx = 0\<rparr>,
                          \<lparr>dow = 3, hour = 19, colIdx = 0\<rparr>, \<lparr>dow = 3, hour = 20, colIdx = 0\<rparr>]\<rparr>
        \<lparr>availability_tbl =
           [(7, \<lparr>id_avail = 1, day_of_week = 3, start_time = ''17:00:00'', end_time = ''20:00:00''\<rparr>),
            (7, \<lparr>id_avail = 2, day_of_week = 4, start_time = ''17:00:00'', end_time = ''21:00:00''\<rparr>)],
         next_uuid = 3, faults = []\<rparr>
      = (\<lparr>profile = Some \<lparr>id_profile = 7, first_name = ''Ann'', username = ''ann''\<rparr>,
         availability =
           [\<lparr>id_avail = 1, day_of_week = 3, start_time = ''17:00:00'', end_time = ''20:00:00''\<rparr>,
            \<lparr>id_avail = 2, day_of_week = 4, start_time = ''17:00:00'', end_time = ''21:00:00''\<rparr>,
            \<lparr>id_avail = 3, day_of_week = 3, start_time = ''20:00:00'', end_time = ''21:00:00''\<rparr>],
         selectedCells = []\<rparr>,
         \<lparr>availability_tbl =
           [(7, \<lparr>id_avail = 1, day_of_week = 3, start_time = ''17:00:00'', end_time = ''20:00:00''\<rparr>),
            (7, \<lparr>id_avail = 2, day_of_week = 4, start_time = ''17:00:00'', end_time = ''21:00:00''\<rparr>),
            (7, \<lparr>id_avail = 3, day_of_week = 3, start_time = ''20:00:00'', end_time = ''21:00:00''\<rparr>)],
         next_uuid = 4, faults = []\<rparr>)
   \<and> allAvailable
       [\<lparr>id_avail = 1, day_of_week = 3, start_time = ''17:00:00'', end_time = ''20:00:00''\<rparr>,
        \<lparr>id_avail = 2, day_of_week = 4, start_time = ''17:00:00'', end_time = ''21:00:00''\<rparr>,
        \<lparr>id_avail = 3, day_of_week = 3, start_time = ''20:00:00'', end_time = ''21:00:00''\<rparr>]
       [\<lparr>dow = 3, hour = 17, colIdx = 0\<rparr>, \<lparr>dow = 3, hour = 18, colIdx = 0\<rparr>,
        \<lparr>dow = 3, hour = 19, colIdx = 0\<rparr>, \<lparr>dow = 3, hour = 20, colIdx = 0\<rparr>]
   \<and> handleToggleAvailability
        \<lparr>profile = Some \<lparr>id_profile = 7, first_name = ''Ann'', username = ''ann''\<rparr>,
         availability =
           [\<lparr>id_avail = 1, day_of_week = 3, start_time = ''17:00:00'', end_time = ''20:00:00''\<rparr>,
            \<lparr>id_avail = 2, day_of_week = 4, start_time = ''17:00:00'', end_time = ''21:00:00''\<rparr>,
            \<lparr>id_avail = 3, day_of_week = 3, start_time = ''20:00:00'', end_time = ''21:00:00''\<rparr>],
         selectedCells = [\<lparr>dow = 3, hour = 17, colIdx = 0\<rparr>, \<lparr>dow = 3, hour = 18, colIdx = 0\<rparr>,
                          \<lparr>dow = 3, hour = 19, colIdx = 0\<rparr>, \<lparr>dow = 3, hour = 20, colIdx = 0\<rparr>]\<rparr>
        \<lparr>availability_tbl =
           [(7, \<lparr>id_avail = 1, day_of_week = 3, start_time = ''17:00:00'', end_time = ''20:00:00''\<rparr>),
            (7, \<lparr>id_avail = 2, day_of_week = 4, start_time = ''17:00:00'', end_time = ''21:00:00''\<rparr>),
            (7, \<lparr>id_avail = 3, day_of_week = 3, start_time = ''20:00:00'', end_time = ''21:00:00''\<rparr>)],
         next_uuid = 4, faults = []\<rparr>
      = (\<lparr>profile = Some \<lparr>id_profile = 7, first_name = ''Ann'', username = ''ann''\<rparr>,
         availability =
           [\<lparr>id_avail = 2, day_of_week = 4, start_time = ''17:00:00'', end_time = ''21:00:00''\<rparr>,
            \<lparr>id_avail = 4, day_of_week = 3, start_time = ''18:00:00'', end_time = ''20:00:00''\<rparr>,
            \<lparr>id_avail = 5, day_of_week = 3, start_time = ''17:00:00'', end_time = ''18:00:00''\<rparr>,
            \<lparr>id_avail = 6, day_of_week = 3, start_time = ''19:00:00'', end_time = ''20:00:00''\<rparr>,
            \<lparr>id_avail = 7, day_of_week = 3, start_time = ''17:00:00'', end_time = ''19:00:00''\<rparr>],
         selectedCells = []\<rparr>,
         \<lparr>availability_tbl =
           [(7, \<lparr>id_avail = 2, day_of_week = 4, start_time = ''17:00:00'', end_time = ''21:00:00''\<rparr>),
            (7, \<lparr>id_avail = 4, day_of_week = 3, start_time = ''18:00:00'', end_time = ''20:00:00''\<rparr>),
            (7, \<lparr>id_avail = 5, day_of_week = 3, start_time = ''17:00:00'', end_time = ''18:00:00''\<rparr>),
            (7, \<lparr>id_avail = 6, day_of_week = 3, start_time = ''19:00:00'', end_time = ''20:00:00''\<rparr>),
            (7, \<lparr>id_avail = 7, day_of_week = 3, start_time = ''17:00:00'', end_time = ''19:00:00''\<rparr>)],
         next_uuid = 8, faults = []\<rparr>)
   \<and> isCellAvailable
        [\<lparr>id_avail = 2, day_of_week = 4, start_time = ''17:00:00'', end_time = ''21:00:00''\<rparr>,
         \<lparr>id_avail = 4, day_of_week = 3, start_time = ''18:00:00'', end_time = ''20:00:00''\<rparr>,
         \<lparr>id_avail = 5, day_of_week = 3, start_time = ''17:00:00'', end_time = ''18:00:00''\<rparr>,
         \<lparr>id_avail = 6, day_of_week = 3, start_time = ''19:00:00'', end_time = ''20:00:00''\<rparr>,
         \<lparr>id_avail = 7, day_of_week = 3, start_time = ''17:00:00'', end_time = ''19:00:00''\<rparr>] 3 17
      = Some \<lparr>id_avail = 5, day_of_week = 3, start_time = ''17:00:00'', end_time = ''18:00:00''\<rparr>
   \<and> isCellAvailable
        [\<lparr>id_avail = 2, day_of_week = 4, start_time = ''17:00:00'', end_time = ''21:00:00''\<rparr>,
         \<lparr>id_avail = 4, day_of_week = 3, start_time = ''18:00:00'', end_time = ''20:00:00''\<rparr>,
         \<lparr>id_avail = 5, day_of_week = 3, start_time = ''17:00:00'', end_time = ''18:00:00''\<rparr>,
         \<lparr>id_avail = 6, day_of_week = 3, start_time = ''19:00:00'', end_time = ''20:00:00''\<rparr>,
         \<lparr>id_avail = 7, day_of_week = 3, start_time = ''17:00:00'', end_time = ''19:00:00''\<rparr>] 3 18
      = Some \<lparr>id_avail = 4, day_of_week = 3, start_time = ''18:00:00'', end_time = ''20:00:00''\<rparr>
   \<and> isCellAvailable
        [\<lparr>id_avail = 2, day_of_week = 4, start_time = ''17:00:00'', end_time = ''21:00:00''\<rparr>,
         \<lparr>id_avail = 4, day_of_week = 3, start_time = ''18:00:00'', end_time = ''20:00:00''\<rparr>,
         \<lparr>id_avail = 5, day_of_week = 3, start_time = ''17:00:00'', end_time = ''18:00:00''\<rparr>,
         \<lparr>id_avail = 6, day_of_week = 3, start_time = ''19:00:00'', end_time = ''20:00:00''\<rparr>,
         \<lparr>id_avail = 7, day_of_week = 3, start_time = ''17:00:00'', end_time = ''19:00:00''\<rparr>] 3 19
      = Some \<lparr>id_avail = 4, day_of_week = 3, start_time = ''18:00:00'', end_time = ''20:00:00''\<rparr>"
  by (simp add: handleToggleAvailability_def allAvailable_def isCellAvailable_def hour_eval
        next_fails_def toggleCell_def addHour_def removeHour_def db_delete_def db_insert_def Let_def)

section \<open>Friend requests and hangout proposals\<close>

text \<open>
  Claim C5, as amended. A friend request fails, leaving the database as it was and
  recording the error for that user, whenever a link from the requester to the recipient
  is already stored, whatever its status; with both users existing the error is the
  uniqueness violation. A link from the recipient to the requester does not make it fail:
  when no link from requester to recipient is stored (and both users exist), the request
  succeeds and appends a pending link from requester to recipient.
\<close>

theorem friend_request_conflict:
  "(prof = Some p
      \<and> list_ex (\<lambda>r. user_id r = id_profile p \<and> friend_user_id r = f) (friends db) \<longrightarrow>
      (\<exists>err. handleAddFriend prof f ui db = (ui\<lparr>friendErrors := (friendErrors ui)(f \<mapsto> err)\<rparr>, db)))
   \<and> (prof = Some p \<and> user_exists db (id_profile p) \<and> user_exists db f
      \<and> list_ex (\<lambda>r. user_id r = id_profile p \<and> friend_user_id r = f) (friends db) \<longrightarrow>
      handleAddFriend prof f ui db
        = (ui\<lparr>friendErrors := (friendErrors ui)(f \<mapsto> UniqueViolation)\<rparr>, db))
   \<and> (prof = Some p \<and> user_exists db (id_profile p) \<and> user_exists db f
      \<and> \<not> list_ex (\<lambda>r. user_id r = id_profile p \<and> friend_user_id r = f) (friends db) \<longrightarrow>
      handleAddFriend prof f ui db
        = (ui\<lparr>friendErrors := (friendErrors ui)(f := None),
              addedFriends := insert f (addedFriends ui)\<rparr>,
           db\<lparr>friends := friends db
                  @ [\<lparr>id_friend = next_row_id db, user_id = id_profile p,
                       friend_user_id = f, status_friend = pending\<rparr>],
              next_row_id := Suc (next_row_id db)\<rparr>))"
  by (auto simp: handleAddFriend_def friends_insert_def)


theorem friend_request_conflict_witness:
  "handleAddFriend (Some \<lparr>id_profile = 1, first_name = ''Ann'', username = ''ann''\<rparr>) 2
        \<lparr>friendErrors = Map.empty, addedFriends = {}\<rparr>
        \<lparr>users = [\<lparr>id_profile = 1, first_name = ''Ann'', username = ''ann''\<rparr>,
                  \<lparr>id_profile = 2, first_name = ''Bob'', username = ''bob''\<rparr>],
         friends = [\<lparr>id_friend = 10, user_id = 1, friend_user_id = 2, status_friend = accepted\<rparr>],
         interests = [], hangout_suggestions = [], next_row_id = 11\<rparr>
     = (\<lparr>friendErrors = [2 \<mapsto> UniqueViolation], addedFriends = {}\<rparr>,
        \<lparr>users = [\<lparr>id_profile = 1, first_name = ''Ann'', username = ''ann''\<rparr>,
                  \<lparr>id_profile = 2, first_name = ''Bob'', username = ''bob''\<rparr>],
         friends = [\<lparr>id_friend = 10, user_id = 1, friend_user_id = 2, status_friend = accepted\<rparr>],
         interests = [], hangout_suggestions = [], next_row_id = 11\<rparr>)
   \<and> handleAddFriend (Some \<lparr>id_profile = 1, first_name = ''Ann'', username = ''ann''\<rparr>) 2
        \<lparr>friendErrors = Map.empty, addedFriends = {}\<rparr>
        \<lparr>users = [\<lparr>id_profile = 1, first_name = ''Ann'', username = ''ann''\<rparr>,
                  \<lparr>id_profile = 2, first_name = ''Bob'', username = ''bob''\<rparr>],
         friends = [], interests = [], hangout_suggestions = [], next_row_id = 11\<rparr>
     = (\<lparr>friendErrors = Map.empty, addedFriends = {2}\<rparr>,
        \<lparr>users = [\<lparr>id_profile = 1, first_name = ''Ann'', username = ''ann''\<rparr>,
                  \<lparr>id_profile = 2, first_name = ''Bob'', username = ''bob''\<rparr>],
         friends = [\<lparr>id_friend = 11, user_id = 1, friend_user_id = 2, status_friend = pending\<rparr>],
         interests = [], hangout_suggestions = [], next_row_id = 12\<rparr>)"
  using friend_request_conflict [of "Some \<lparr>id_profile = 1, first_name = ''Ann'', username = ''ann''\<rparr>"
       "\<lparr>id_profile = 1, first_name = ''Ann'', username = ''ann''\<rparr>" 2
       "\<lparr>users = [\<lparr>id_profile = 1, first_name = ''Ann'', username = ''ann''\<rparr>,
                  \<lparr>id_profile = 2, first_name = ''Bob'', username = ''bob''\<rparr>],
         friends = [\<lparr>id_friend = 10, user_id = 1, friend_user_id = 2, status_friend = accepted\<rparr>],
         interests = [], hangout_suggestions = [], next_row_id = 11\<rparr>"
       "\<lparr>friendErrors = Map.empty, addedFriends = {}\<rparr>"]
    friend_request_conflict [of "Some \<lparr>id_profile = 1, first_name = ''Ann'', username = ''ann''\<rparr>"
       "\<lparr>id_profile = 1, first_name = ''Ann'', username = ''ann''\<rparr>" 2
       "\<lparr>users = [\<lparr>id_profile = 1, first_name = ''Ann'', username = ''ann''\<rparr>,
                  \<lparr>id_profile = 2, first_name = ''Bob'', username = ''bob''\<rparr>],
         friends = [], interests = [], hangout_suggestions = [], next_row_id = 11\<rparr>"
       "\<lparr>friendErrors = Map.empty, addedFriends = {}\<rparr>"]
  by (simp add: user_exists_def)

text \<open>Bob has a pending request to Ann; Ann's request to Bob is accepted by the database
  and stored beside it.\<close>

theorem friend_request_reverse_link_counterexample:
  "handleAddFriend (Some \<lparr>id_profile = 1, first_name = ''Ann'', username = ''ann''\<rparr>) 2
        \<lparr>friendErrors = Map.empty, addedFriends = {}\<rparr>
        \<lparr>users = [\<lparr>id_profile = 1, first_name = ''Ann'', username = ''ann''\<rparr>,
                  \<lparr>id_profile = 2, first_name = ''Bob'', username = ''bob''\<rparr>],
         friends = [\<lparr>id_friend = 10, user_id = 2, friend_user_id = 1, status_friend = pending\<rparr>],
         interests = [], hangout_suggestions = [], next_row_id = 11\<rparr>
     = (\<lparr>friendErrors = Map.empty, addedFriends = {2}\<rparr>,
        \<lparr>users = [\<lparr>id_profile = 1, first_name = ''Ann'', username = ''ann''\<rparr>,
                  \<lparr>id_profile = 2, first_name = ''Bob'', username = ''bob''\<rparr>],
         friends = [\<lparr>id_friend = 10, user_id = 2, friend_user_id = 1, status_friend = pending\<rparr>,
                    \<lparr>id_friend = 11, user_id = 1, friend_user_id = 2, status_friend = pending\<rparr>],
         interests = [], hangout_suggestions = [], next_row_id = 12\<rparr>)"
  by (simp add: handleAddFriend_def friends_insert_def user_exists_def)

lemma hs_update_status_no_row:
  "\<not> list_ex (\<lambda>r. id_hs r = i \<and> recipient_user_id r = auth) (hangout_suggestions db) \<Longrightarrow>
   hs_update_status auth i s db = db"
proof -
  assume "\<not> list_ex (\<lambda>r. id_hs r = i \<and> recipient_user_id r = auth) (hangout_suggestions db)"
  then have "map (\<lambda>r. if id_hs r = i \<and> recipient_user_id r = auth then r\<lparr>status := s\<rparr> else r)
               (hangout_suggestions db) = hangout_suggestions db"
    by (intro map_idI) (auto simp: list_ex_iff)
  then show ?thesis
    by (simp add: hs_update_status_def)
qed

lemma hs_update_status_row:
  "r \<in> set (hangout_suggestions db) \<Longrightarrow>
   (if id_hs r = i \<and> recipient_user_id r = auth then r\<lparr>status := s\<rparr> else r)
     \<in> set (hangout_suggestions (hs_update_status auth i s db))"
  by (simp add: hs_update_status_def image_iff) blast

text \<open>
  Claim C4, as amended. A response (accept or decline) by a user who is not the recipient
  of the proposal with that identifier changes nothing in the database, and no error is
  reported. A response by the recipient sets the status of the proposal to the decision,
  whatever the status was: from pending to accepted or declined, and equally from accepted
  or declined. Every other proposal is left as it was, and no proposal is added or removed.
\<close>

theorem respond_effect:
  "(\<not> list_ex (\<lambda>r. id_hs r = i \<and> recipient_user_id r = auth) (hangout_suggestions db) \<longrightarrow>
      snd (handleAcceptHangout auth i reqs db) = db \<and> snd (handleDeclineHangout auth i reqs db) = db)
   \<and> (r \<in> set (hangout_suggestions db) \<and> id_hs r = i \<and> recipient_user_id r = auth \<longrightarrow>
        r\<lparr>status := accepted\<rparr> \<in> set (hangout_suggestions (snd (handleAcceptHangout auth i reqs db)))
        \<and> r\<lparr>status := declined\<rparr> \<in> set (hangout_suggestions (snd (handleDeclineHangout auth i reqs db))))
   \<and> (r \<in> set (hangout_suggestions db) \<and> (id_hs r \<noteq> i \<or> recipient_user_id r \<noteq> auth) \<longrightarrow>
        r \<in> set (hangout_suggestions (snd (handleAcceptHangout auth i reqs db)))
        \<and> r \<in> set (hangout_suggestions (snd (handleDeclineHangout auth i reqs db))))
   \<and> map id_hs (hangout_suggestions (snd (handleAcceptHangout auth i reqs db)))
        = map id_hs (hangout_suggestions db)
   \<and> map id_hs (hangout_suggestions (snd (handleDeclineHangout auth i reqs db)))
        = map id_hs (hangout_suggestions db)"
proof (intro conjI impI)
  assume "\<not> list_ex (\<lambda>r. id_hs r = i \<and> recipient_user_id r = auth) (hangout_suggestions db)"
  then show "snd (handleAcceptHangout auth i reqs db) = db"
    and "snd (handleDeclineHangout auth i reqs db) = db"
    by (simp_all add: handleAcceptHangout_def handleDeclineHangout_def hs_update_status_no_row)
next
  assume a: "r \<in> set (hangout_suggestions db) \<and> id_hs r = i \<and> recipient_user_id r = auth"
  then show "r\<lparr>status := accepted\<rparr> \<in> set (hangout_suggestions (snd (handleAcceptHangout auth i reqs db)))"
    using hs_update_status_row [of r db i auth accepted] by (simp add: handleAcceptHangout_def)
  from a show "r\<lparr>status := declined\<rparr> \<in> set (hangout_suggestions (snd (handleDeclineHangout auth i reqs db)))"
    using hs_update_status_row [of r db i auth declined] by (simp add: handleDeclineHangout_def)
next
  assume a: "r \<in> set (hangout_suggestions db) \<and> (id_hs r \<noteq> i \<or> recipient_user_id r \<noteq> auth)"
  then show "r \<in> set (hangout_suggestions (snd (handleAcceptHangout auth i reqs db)))"
    using hs_update_status_row [of r db i auth accepted] by (auto simp: handleAcceptHangout_def)
  from a show "r \<in> set (hangout_suggestions (snd (handleDeclineHangout auth i reqs db)))"
    using hs_update_status_row [of r db i auth declined] by (auto simp: handleDeclineHangout_def)
next
  show "map id_hs (hangout_suggestions (snd (handleAcceptHangout auth i reqs db)))
        = map id_hs (hangout_suggestions db)"
    by (simp add: handleAcceptHangout_def hs_update_status_def comp_def if_distrib cong: if_cong)
next
  show "map id_hs (hangout_suggestions (snd (handleDeclineHangout auth i reqs db)))
        = map id_hs (hangout_suggestions db)"
    by (simp add: handleDeclineHangout_def hs_update_status_def comp_def if_distrib cong: if_cong)
qed


theorem respond_effect_witness:
  "snd (handleAcceptHangout 1 5 []
      \<lparr>users = [], friends = [], interests = [],
       hangout_suggestions =
         [\<lparr>id_hs = 5, sender_user_id = 1, recipient_user_id = 2, interest_id = 20,
           proposed_datetime = 1000, message = None, location = None, description = None,
           status = pending\<rparr>],
       next_row_id = 6\<rparr>)
     = \<lparr>users = [], friends = [], interests = [],
       hangout_suggestions =
         [\<lparr>id_hs = 5, sender_user_id = 1, recipient_user_id = 2, interest_id = 20,
           proposed_datetime = 1000, message = None, location = None, description = None,
           status = pending\<rparr>],
       next_row_id = 6\<rparr>
   \<and> hangout_suggestions (snd (handleAcceptHangout 2 5 []
      \<lparr>users = [], friends = [], interests = [],
       hangout_suggestions =
         [\<lparr>id_hs = 5, sender_user_id = 1, recipient_user_id = 2, interest_id = 20,
           proposed_datetime = 1000, message = None, location = None, description = None,
           status = pending\<rparr>],
       next_row_id = 6\<rparr>))
     = [\<lparr>id_hs = 5, sender_user_id = 1, recipient_user_id = 2, interest_id = 20,
           proposed_datetime = 1000, message = None, location = None, description = None,
           status = accepted\<rparr>]"
proof -
  let ?r = "\<lparr>id_hs = 5, sender_user_id = 1, recipient_user_id = 2, interest_id = 20,
           proposed_datetime = 1000, message = None, location = None, description = None,
           status = pending\<rparr>"
  let ?db = "\<lparr>users = [], friends = [], interests = [], hangout_suggestions = [?r], next_row_id = 6\<rparr>"
  have 1: "snd (handleAcceptHangout 1 5 [] ?db) = ?db"
    using respond_effect [of 5 1 ?db "[]" ?r] by simp
  have "?r\<lparr>status := accepted\<rparr> \<in> set (hangout_suggestions (snd (handleAcceptHangout 2 5 [] ?db)))"
    and "map id_hs (hangout_suggestions (snd (handleAcceptHangout 2 5 [] ?db))) = [5]"
    using respond_effect [of 5 2 ?db "[]" ?r] by simp_all
  then have 2: "hangout_suggestions (snd (handleAcceptHangout 2 5 [] ?db)) = [?r\<lparr>status := accepted\<rparr>]"
    by (cases "hangout_suggestions (snd (handleAcceptHangout 2 5 [] ?db))") auto
  from 1 2 show ?thesis by simp
qed

text \<open>An accepted proposal is declined by its recipient afterwards: accepted is not
  terminal.\<close>

theorem respond_after_accept_counterexample:
  "map status (hangout_suggestions
      \<lparr>users = [], friends = [], interests = [],
       hangout_suggestions =
         [\<lparr>id_hs = 5, sender_user_id = 1, recipient_user_id = 2, interest_id = 20,
           proposed_datetime = 1000, message = None, location = None, description = None,
           status = accepted\<rparr>],
       next_row_id = 6\<rparr>) = [accepted]
   \<and> map status (hangout_suggestions (snd (handleDeclineHangout 2 5 []
      \<lparr>users = [], friends = [], interests = [],
       hangout_suggestions =
         [\<lparr>id_hs = 5, sender_user_id = 1, recipient_user_id = 2, interest_id = 20,
           proposed_datetime = 1000, message = None, location = None, description = None,
           status = accepted\<rparr>],
       next_row_id = 6\<rparr>))) = [declined]"
  by (simp add: handleDeclineHangout_def hs_update_status_def)




lemma toHang_row:
  "id_hang (toHang db (h, f)) = id_hs h"
  "proposed_datetime_hang (toHang db (h, f)) = proposed_datetime h"
  "message_hang (toHang db (h, f)) = message h"
  "location_hang (toHang db (h, f)) = location h"
  "description_hang (toHang db (h, f)) = description h"
  by (simp_all add: toHang_def)

lemma visible_sent:
  "filter (\<lambda>h. sender_user_id h = u \<and> P h) (hs_visible u db)
     = filter (\<lambda>h. sender_user_id h = u \<and> P h) (hangout_suggestions db)"
  by (auto simp: hs_visible_def intro: filter_cong)

lemma visible_received:
  "filter (\<lambda>h. recipient_user_id h = u \<and> P h) (hs_visible u db)
     = filter (\<lambda>h. recipient_user_id h = u \<and> P h) (hangout_suggestions db)"
  by (auto simp: hs_visible_def intro: filter_cong)

lemma upcomingHangs_mset:
  "mset (map g (upcomingHangs u now1 now2 db))
     = mset (map (\<lambda>h. g (toHang db (h, recipient_user_id h)))
          (filter (\<lambda>h. sender_user_id h = u \<and> status h = accepted \<and> now1 \<le> proposed_datetime h)
             (hangout_suggestions db)))
     + mset (map (\<lambda>h. g (toHang db (h, sender_user_id h)))
          (filter (\<lambda>h. recipient_user_id h = u \<and> status h = accepted \<and> now2 \<le> proposed_datetime h)
             (hangout_suggestions db)))"
  by (simp add: upcomingHangs_def Let_def visible_sent visible_received multiset.map_comp comp_def)

lemma mset_filter_disjoint_or:
  "\<forall>x\<in>set xs. \<not> (P x \<and> Q x) \<Longrightarrow>
   mset (map g (filter (\<lambda>x. P x \<or> Q x) xs))
     = mset (map g (filter P xs)) + mset (map g (filter Q xs))"
  by (induction xs) auto

text \<open>
  Claim C7, as amended. \<open>fetchData\<close> reads the clock once for the query of the sent
  proposals (\<open>now1\<close>) and once for the query of the received ones (\<open>now2\<close>), and joins
  the two answers without removing duplicates. The upcoming hangs are therefore, as a
  multiset of rows (identifier, time, message, location, description), the accepted
  proposals the user sent with time at or after \<open>now1\<close> together with the accepted
  proposals the user received with time at or after \<open>now2\<close>: a proposal a user sent to
  themselves is listed once for each query that selects it. The list is sorted ascending by
  time. When both reads give the same \<open>now\<close> and no proposal has the user as both sender
  and recipient, the list holds exactly the proposals with the user as sender or recipient,
  status accepted and time at or after \<open>now\<close>, each once.
\<close>

theorem upcoming_hangs_two_reads:
  "mset (map (\<lambda>x. (id_hang x, proposed_datetime_hang x, message_hang x, location_hang x,
                     description_hang x)) (upcomingHangs u now1 now2 db))
     = mset (map (\<lambda>h. (id_hs h, proposed_datetime h, message h, location h, description h))
          (filter (\<lambda>h. sender_user_id h = u \<and> status h = accepted \<and> now1 \<le> proposed_datetime h)
             (hangout_suggestions db)))
     + mset (map (\<lambda>h. (id_hs h, proposed_datetime h, message h, location h, description h))
          (filter (\<lambda>h. recipient_user_id h = u \<and> status h = accepted \<and> now2 \<le> proposed_datetime h)
             (hangout_suggestions db)))
   \<and> set (map id_hang (upcomingHangs u now1 now2 db))
       = id_hs ` ({h \<in> set (hangout_suggestions db).
                     sender_user_id h = u \<and> status h = accepted \<and> now1 \<le> proposed_datetime h}
                 \<union> {h \<in> set (hangout_suggestions db).
                     recipient_user_id h = u \<and> status h = accepted \<and> now2 \<le> proposed_datetime h})
   \<and> sorted (map proposed_datetime_hang (upcomingHangs u now1 now2 db))
   \<and> ((\<forall>h\<in>set (hangout_suggestions db). \<not> (sender_user_id h = u \<and> recipient_user_id h = u)) \<longrightarrow>
        mset (map (\<lambda>x. (id_hang x, proposed_datetime_hang x, message_hang x, location_hang x,
                          description_hang x)) (upcomingHangs u now now db))
          = mset (map (\<lambda>h. (id_hs h, proposed_datetime h, message h, location h, description h))
               (filter (\<lambda>h. (sender_user_id h = u \<or> recipient_user_id h = u) \<and> status h = accepted
                             \<and> now \<le> proposed_datetime h)
                  (hangout_suggestions db))))"
proof (intro conjI impI)
  show "mset (map (\<lambda>x. (id_hang x, proposed_datetime_hang x, message_hang x, location_hang x,
                     description_hang x)) (upcomingHangs u now1 now2 db))
     = mset (map (\<lambda>h. (id_hs h, proposed_datetime h, message h, location h, description h))
          (filter (\<lambda>h. sender_user_id h = u \<and> status h = accepted \<and> now1 \<le> proposed_datetime h)
             (hangout_suggestions db)))
     + mset (map (\<lambda>h. (id_hs h, proposed_datetime h, message h, location h, description h))
          (filter (\<lambda>h. recipient_user_id h = u \<and> status h = accepted \<and> now2 \<le> proposed_datetime h)
             (hangout_suggestions db)))"
    by (simp only: upcomingHangs_mset toHang_row)
next
  have "set (map id_hang (upcomingHangs u now1 now2 db))
          = set_mset (mset (map id_hang (upcomingHangs u now1 now2 db)))"
    by simp
  also have "\<dots> = id_hs ` ({h \<in> set (hangout_suggestions db).
                     sender_user_id h = u \<and> status h = accepted \<and> now1 \<le> proposed_datetime h}
                 \<union> {h \<in> set (hangout_suggestions db).
                     recipient_user_id h = u \<and> status h = accepted \<and> now2 \<le> proposed_datetime h})"
    by (simp only: upcomingHangs_mset toHang_row) auto
  finally show "set (map id_hang (upcomingHangs u now1 now2 db))
       = id_hs ` ({h \<in> set (hangout_suggestions db).
                     sender_user_id h = u \<and> status h = accepted \<and> now1 \<le> proposed_datetime h}
                 \<union> {h \<in> set (hangout_suggestions db).
                     recipient_user_id h = u \<and> status h = accepted \<and> now2 \<le> proposed_datetime h})" .
next
  show "sorted (map proposed_datetime_hang (upcomingHangs u now1 now2 db))"
    by (simp add: upcomingHangs_def Let_def)
next
  assume ns: "\<forall>h\<in>set (hangout_suggestions db). \<not> (sender_user_id h = u \<and> recipient_user_id h = u)"
  let ?g = "\<lambda>h. (id_hs h, proposed_datetime h, message h, location h, description h)"
  let ?A = "\<lambda>h. status h = accepted \<and> now \<le> proposed_datetime h"
  have "\<forall>h\<in>set (hangout_suggestions db).
          \<not> ((sender_user_id h = u \<and> ?A h) \<and> (recipient_user_id h = u \<and> ?A h))"
    using ns by blast
  from mset_filter_disjoint_or [OF this, of ?g]
  have e1: "mset (map ?g (filter (\<lambda>h. sender_user_id h = u \<and> ?A h \<or> recipient_user_id h = u \<and> ?A h)
                        (hangout_suggestions db)))
          = mset (map ?g (filter (\<lambda>h. sender_user_id h = u \<and> ?A h) (hangout_suggestions db)))
            + mset (map ?g (filter (\<lambda>h. recipient_user_id h = u \<and> ?A h) (hangout_suggestions db)))" .
  have e2: "(\<lambda>h. sender_user_id h = u \<and> ?A h \<or> recipient_user_id h = u \<and> ?A h)
                   = (\<lambda>h. (sender_user_id h = u \<or> recipient_user_id h = u) \<and> ?A h)"
    by auto
  have e0: "mset (map (\<lambda>x. (id_hang x, proposed_datetime_hang x, message_hang x, location_hang x,
                          description_hang x)) (upcomingHangs u now now db))
          = mset (map ?g (filter (\<lambda>h. sender_user_id h = u \<and> ?A h) (hangout_suggestions db)))
            + mset (map ?g (filter (\<lambda>h. recipient_user_id h = u \<and> ?A h) (hangout_suggestions db)))"
    by (simp only: upcomingHangs_mset toHang_row)
  show "mset (map (\<lambda>x. (id_hang x, proposed_datetime_hang x, message_hang x, location_hang x,
                          description_hang x)) (upcomingHangs u now now db))
          = mset (map ?g
               (filter (\<lambda>h. (sender_user_id h = u \<or> recipient_user_id h = u) \<and> status h = accepted
                             \<and> now \<le> proposed_datetime h)
                  (hangout_suggestions db)))"
    by (simp only: e0 e1 [unfolded e2])
qed

theorem upcoming_hangs_two_reads_witness:
  "mset (map (\<lambda>x. (id_hang x, proposed_datetime_hang x, message_hang x, location_hang x,
                     description_hang x)) (upcomingHangs 1 50 50
      \<lparr>users = [], friends = [], interests = [],
       hangout_suggestions =
         [\<lparr>id_hs = 5, sender_user_id = 1, recipient_user_id = 2, interest_id = 20,
           proposed_datetime = 300, message = None, location = None, description = None,
           status = accepted\<rparr>,
          \<lparr>id_hs = 6, sender_user_id = 2, recipient_user_id = 1, interest_id = 20,
           proposed_datetime = 100, message = None, location = None, description = None,
           status = accepted\<rparr>,
          \<lparr>id_hs = 7, sender_user_id = 2, recipient_user_id = 1, interest_id = 20,
           proposed_datetime = 40, message = None, location = None, description = None,
           status = accepted\<rparr>,
          \<lparr>id_hs = 8, sender_user_id = 1, recipient_user_id = 2, interest_id = 20,
           proposed_datetime = 200, message = None, location = None, description = None,
           status = pending\<rparr>],
       next_row_id = 9\<rparr>))
     = mset [(5, 300, None, None, None), (6, 100, None, None, None)]
   \<and> sorted (map proposed_datetime_hang (upcomingHangs 1 50 50
      \<lparr>users = [], friends = [], interests = [],
       hangout_suggestions =
         [\<lparr>id_hs = 5, sender_user_id = 1, recipient_user_id = 2, interest_id = 20,
           proposed_datetime = 300, message = None, location = None, description = None,
           status = accepted\<rparr>,
          \<lparr>id_hs = 6, sender_user_id = 2, recipient_user_id = 1, interest_id = 20,
           proposed_datetime = 100, message = None, location = None, description = None,
           status = accepted\<rparr>,
          \<lparr>id_hs = 7, sender_user_id = 2, recipient_user_id = 1, interest_id = 20,
           proposed_datetime = 40, message = None, location = None, description = None,
           status = accepted\<rparr>,
          \<lparr>id_hs = 8, sender_user_id = 1, recipient_user_id = 2, interest_id = 20,
           proposed_datetime = 200, message = None, location = None, description = None,
           status = pending\<rparr>],
       next_row_id = 9\<rparr>))"
proof -
  let ?db = "\<lparr>users = [], friends = [], interests = [],
       hangout_suggestions =
         [\<lparr>id_hs = 5, sender_user_id = 1, recipient_user_id = 2, interest_id = 20,
           proposed_datetime = 300, message = None, location = None, description = None,
           status = accepted\<rparr>,
          \<lparr>id_hs = 6, sender_user_id = 2, recipient_user_id = 1, interest_id = 20,
           proposed_datetime = 100, message = None, location = None, description = None,
           status = accepted\<rparr>,
          \<lparr>id_hs = 7, sender_user_id = 2, recipient_user_id = 1, interest_id = 20,
           proposed_datetime = 40, message = None, location = None, description = None,
           status = accepted\<rparr>,
          \<lparr>id_hs = 8, sender_user_id = 1, recipient_user_id = 2, interest_id = 20,
           proposed_datetime = 200, message = None, location = None, description = None,
           status = pending\<rparr>],
       next_row_id = 9\<rparr>"
  note t = upcoming_hangs_two_reads [of 1 50 50 ?db 50]
  have ns: "\<forall>h\<in>set (hangout_suggestions ?db). \<not> (sender_user_id h = 1 \<and> recipient_user_id h = 1)"
    by simp
  from t have "(\<forall>h\<in>set (hangout_suggestions ?db). \<not> (sender_user_id h = 1 \<and> recipient_user_id h = 1)) \<longrightarrow>
        mset (map (\<lambda>x. (id_hang x, proposed_datetime_hang x, message_hang x, location_hang x,
                          description_hang x)) (upcomingHangs 1 50 50 ?db))
          = mset (map (\<lambda>h. (id_hs h, proposed_datetime h, message h, location h, description h))
               (filter (\<lambda>h. (sender_user_id h = 1 \<or> recipient_user_id h = 1) \<and> status h = accepted
                             \<and> 50 \<le> proposed_datetime h)
                  (hangout_suggestions ?db)))"
    by (rule conjunct2 [OF conjunct2 [OF conjunct2]])
  with ns have "mset (map (\<lambda>x. (id_hang x, proposed_datetime_hang x, message_hang x, location_hang x,
                          description_hang x)) (upcomingHangs 1 50 50 ?db))
          = mset (map (\<lambda>h. (id_hs h, proposed_datetime h, message h, location h, description h))
               (filter (\<lambda>h. (sender_user_id h = 1 \<or> recipient_user_id h = 1) \<and> status h = accepted
                             \<and> 50 \<le> proposed_datetime h)
                  (hangout_suggestions ?db)))"
    by (rule rev_mp)
  also have "\<dots> = mset [(5, 300, None, None, None), (6, 100, None, None, None)]"
    by simp
  finally have 1: "mset (map (\<lambda>x. (id_hang x, proposed_datetime_hang x, message_hang x, location_hang x,
                          description_hang x)) (upcomingHangs 1 50 50 ?db))
          = mset [(5, 300, None, None, None), (6, 100, None, None, None)]" .
  from t have 2: "sorted (map proposed_datetime_hang (upcomingHangs 1 50 50 ?db))"
    by (rule conjunct1 [OF conjunct2 [OF conjunct2]])
  from 1 2 show ?thesis by (rule conjI)
qed

text \<open>
  First, Ann's accepted proposal to herself is listed twice. Second, with the clock read
  at 50 for the sent and at 60 for the received proposals, of two accepted proposals at
  time 55 the one Ann sent is listed and the one she received is not: no single \<open>now\<close>
  gives this answer.
\<close>

theorem upcoming_hangs_counterexample:
  "map id_hang (upcomingHangs 1 50 50
      \<lparr>users = [], friends = [], interests = [],
       hangout_suggestions =
         [\<lparr>id_hs = 5, sender_user_id = 1, recipient_user_id = 1, interest_id = 20,
           proposed_datetime = 100, message = None, location = None, description = None,
           status = accepted\<rparr>],
       next_row_id = 6\<rparr>) = [5, 5]
   \<and> map id_hang (upcomingHangs 1 50 60
      \<lparr>users = [], friends = [], interests = [],
       hangout_suggestions =
         [\<lparr>id_hs = 5, sender_user_id = 1, recipient_user_id = 2, interest_id = 20,
           proposed_datetime = 55, message = None, location = None, description = None,
           status = accepted\<rparr>,
          \<lparr>id_hs = 6, sender_user_id = 2, recipient_user_id = 1, interest_id = 20,
           proposed_datetime = 55, message = None, location = None, description = None,
           status = accepted\<rparr>],
       next_row_id = 7\<rparr>) = [5]"
  by (simp add: upcomingHangs_def hs_visible_def toHang_def single_def Let_def)

end
